theory Spec2Isabelle
  imports Main "HOL-Library.Sublist" "HOL-Library.List_Lexorder" "HOL-Library.Char_ord"
begin

section \<open>Values of the platform\<close>

text \<open>
  The program is one script, \<^verbatim>\<open>src/script.js\<close>, run by a browser. What the browser gives
  it is written out here as far as the program depends on it: errors that are thrown,
  the values a JSON text denotes, reading a property, truthiness, and the conversion to a
  string that a template literal performs.

  A character stands for one UTF-16 code unit below 256. A number read from JSON is held
  as the text that its conversion to a string yields (\<^verbatim>\<open>5\<close>, \<^verbatim>\<open>1.5\<close>, \<^verbatim>\<open>1e+21\<close>), which is all
  the program ever does with one. A clock reading (\<^verbatim>\<open>Date.now()\<close>) and an HTTP status are
  natural numbers.
\<close>

datatype js_error = TypeError | SyntaxError | AbortError | Error string

text \<open>
  How a piece of the script ends: normally, or by throwing. A function that changes the
  state returns the completion together with the state at that point, so that what was
  done before a throw stays done. A function that only computes returns a sum, \<open>Inl\<close> for
  the exception it throws.
\<close>

datatype completion = Normal | Throw js_error

datatype json =
    JNull
  | JBool bool
  | JNum string
  | JStr string
  | JArr "json list"
  | JObj "(string \<times> json) list"

text \<open>
  A value of the program is \<^verbatim>\<open>undefined\<close> (\<open>None\<close>) or a JSON value. An object is the list
  of its own properties, the first entry for a key being that property.
\<close>

type_synonym jsval = "json option"

text \<open>The decimal text of a natural number: \<^verbatim>\<open>'chat-' + Date.now()\<close>, \<^verbatim>\<open>${res.status}\<close>.\<close>

definition digit_char :: "nat \<Rightarrow> char" where
  "digit_char d = ''0123456789'' ! d"

fun decimal :: "nat \<Rightarrow> string" where
  "decimal n = (if n < 10 then [digit_char n] else decimal (n div 10) @ [digit_char (n mod 10)])"

declare decimal.simps [simp del]

text \<open>
  Reading a property. \<^verbatim>\<open>v.name\<close> is \<open>js_get v (Name ''name'')\<close> and \<^verbatim>\<open>v[0]\<close> is
  \<open>js_get v (Index 0)\<close>. Reading from \<^verbatim>\<open>undefined\<close> or \<^verbatim>\<open>null\<close> throws a TypeError; a
  boolean or a number has none of the properties the program reads; a string has its code
  units under their indices and an array its elements. The program reads the names
  \<^verbatim>\<open>candidates\<close>, \<^verbatim>\<open>content\<close>, \<^verbatim>\<open>parts\<close> and \<^verbatim>\<open>text\<close> only, none of which is inherited from a
  prototype, so inherited properties are left out.
\<close>

datatype key = Name string | Index nat

fun js_get :: "jsval \<Rightarrow> key \<Rightarrow> js_error + jsval" where
  "js_get None k = Inl TypeError"
| "js_get (Some JNull) k = Inl TypeError"
| "js_get (Some (JBool b)) k = Inr None"
| "js_get (Some (JNum n)) k = Inr None"
| "js_get (Some (JStr s)) (Name n) = Inr None"
| "js_get (Some (JStr s)) (Index i) = Inr (if i < length s then Some (JStr [s ! i]) else None)"
| "js_get (Some (JArr xs)) (Name n) = Inr None"
| "js_get (Some (JArr xs)) (Index i) = Inr (if i < length xs then Some (xs ! i) else None)"
| "js_get (Some (JObj kvs)) (Name n) = Inr (map_of kvs n)"
| "js_get (Some (JObj kvs)) (Index i) = Inr (map_of kvs (decimal i))"

text \<open>A chain \<^verbatim>\<open>a.b.c\<close>: the next read happens only when the one before it did not throw.\<close>

fun then_get :: "js_error + jsval \<Rightarrow> key \<Rightarrow> js_error + jsval" where
  "then_get (Inl e) k = Inl e"
| "then_get (Inr v) k = js_get v k"

text \<open>Truthiness, as \<^verbatim>\<open>if (msg.text)\<close> tests it.\<close>

fun truthy :: "jsval \<Rightarrow> bool" where
  "truthy None = False"
| "truthy (Some JNull) = False"
| "truthy (Some (JBool b)) = b"
| "truthy (Some (JNum n)) = (n \<noteq> ''0'')"
| "truthy (Some (JStr s)) = (s \<noteq> [])"
| "truthy (Some (JArr xs)) = True"
| "truthy (Some (JObj kvs)) = True"

fun is_string :: "jsval \<Rightarrow> bool" where
  "is_string (Some (JStr s)) = True"
| "is_string v = False"

text \<open>
  The conversion to a string inside a template literal. An array is its elements joined
  by commas, \<^verbatim>\<open>null\<close> elements giving the empty text. An object that came from JSON is
  \<^verbatim>\<open>[object Object]\<close>, unless it has an own property \<^verbatim>\<open>toString\<close>: that property is not a
  function, \<^verbatim>\<open>valueOf\<close> gives no primitive either, and the conversion throws a TypeError.
\<close>

fun ToString :: "json \<Rightarrow> js_error + string"
  and join_comma :: "json list \<Rightarrow> js_error + string" where
  "ToString JNull = Inr ''null''"
| "ToString (JBool b) = Inr (if b then ''true'' else ''false'')"
| "ToString (JNum n) = Inr n"
| "ToString (JStr s) = Inr s"
| "ToString (JArr xs) = join_comma xs"
| "ToString (JObj kvs) =
     (if map_of kvs ''toString'' = None then Inr ''[object Object]'' else Inl TypeError)"
| "join_comma [] = Inr []"
| "join_comma (x # xs) =
     (case (if x = JNull then Inr [] else ToString x) of
        Inl e \<Rightarrow> Inl e
      | Inr s \<Rightarrow>
          (if xs = [] then Inr s
           else case join_comma xs of Inl e \<Rightarrow> Inl e | Inr r \<Rightarrow> Inr (s @ '','' @ r)))"

fun ToString_val :: "jsval \<Rightarrow> js_error + string" where
  "ToString_val None = Inr ''undefined''"
| "ToString_val (Some v) = ToString v"

text \<open>\<^verbatim>\<open>String.prototype.trim\<close>, over the white space that a code unit below 256 can be.\<close>

definition is_space :: "char \<Rightarrow> bool" where
  "is_space c \<longleftrightarrow>
     c \<in> set [CHR 0x09, CHR 0x0A, CHR 0x0B, CHR 0x0C, CHR 0x0D, CHR 0x20, CHR 0xA0]"

definition trim :: "string \<Rightarrow> string" where
  "trim s = rev (dropWhile is_space (rev (dropWhile is_space s)))"

section \<open>The data of the program\<close>

record file_desc =
  file_name :: string
  file_size :: nat
  file_type :: string
  file_url :: string

text \<open>
  A message. \<open>msg_text\<close> is the property \<^verbatim>\<open>text\<close>: a string for everything the program
  writes itself, and whatever the endpoint's reply held at the end of the path
  otherwise. \<open>msg_file\<close> is the property \<^verbatim>\<open>file\<close>: \<open>None\<close> where the message has no such
  property, \<open>Some None\<close> where it is \<^verbatim>\<open>null\<close>, and a descriptor otherwise.
\<close>

record message =
  sender :: string
  msg_text :: jsval
  msg_file :: "file_desc option option"
  timestamp :: string

record chat =
  chat_id :: string
  createdAt :: string
  updatedAt :: string
  messages :: "message list"

text \<open>
  Of the markup of a page the model keeps the elements that have an id, nested as they
  are: an element with its id and the elements with ids inside it, in document order.
\<close>

datatype element = Element string "element list"

text \<open>
  What the browser does that the script only calls. \<^verbatim>\<open>JSON.stringify\<close> and \<^verbatim>\<open>JSON.parse\<close>
  are taken at the one type they are used at, the mapping of conversations; the script
  does not validate what \<^verbatim>\<open>JSON.parse\<close> returns, and the model follows it only where that
  value has the shape \<open>chat\<close>. What the two write and read is taken up in the section on
  JSON texts. \<open>toISOString\<close> is \<^verbatim>\<open>new Date(t).toISOString()\<close>.
  \<open>markup\<close> is what the parser of HTML makes of the texts that \<^verbatim>\<open>renderMessage\<close> assigns to
  \<^verbatim>\<open>innerHTML\<close> without escaping them, the formatted text of the message and the name of
  its file: the elements with ids that the message brings into the page. No script is
  taken to run from that markup.
  A write to \<^verbatim>\<open>localStorage\<close> is taken to succeed.
\<close>

record platform =
  JSON_stringify :: "(string \<rightharpoonup> chat) \<Rightarrow> string"
  JSON_parse :: "string \<Rightarrow> js_error + (string \<rightharpoonup> chat)"
  toISOString :: "nat \<Rightarrow> string"
  markup :: "message \<Rightarrow> element list"

text \<open>
  A call of \<^verbatim>\<open>fetch\<close> that has not settled, with what its continuation in \<^verbatim>\<open>sendMessage\<close>
  holds: the signal it was given, the id of its typing indicator, and the prompt sent.
\<close>

record pending_call =
  signal :: nat
  typingId :: string
  prompt :: string

text \<open>
  A child of the element \<^verbatim>\<open>chat-container\<close>: a rendered message with the elements its
  markup holds, or a typing indicator with its id.
\<close>

datatype node = Message_node message "element list" | Typing_node string

text \<open>
  The variables of the script and the parts of the page it reads and writes. An
  \<^verbatim>\<open>AbortController\<close> is the number under which it was made; \<open>aborted\<close> holds the
  controllers whose \<^verbatim>\<open>abort()\<close> has been called. \<open>chatContainer\<close> is the list of children
  of the element \<^verbatim>\<open>chat-container\<close>, \<open>console\<close> what \<^verbatim>\<open>console.error\<close> has been given.
\<close>

record state =
  isRecording :: bool
  currentFile :: "file_desc option"
  currentChatId :: string
  chats :: "string \<rightharpoonup> chat"
  abortController :: nat
  aborted :: "nat set"
  promptInput :: string
  uploadActive :: bool
  chatContainer :: "node list"
  localStorage :: "string \<rightharpoonup> string"
  console :: "js_error list"
  inflight :: "pending_call list"

section \<open>Local store\<close>

definition saveAllChats :: "platform \<Rightarrow> state \<Rightarrow> state" where
  "saveAllChats P st =
     st\<lparr>localStorage :=
           ((localStorage st)(''pdb-ai-chats'' \<mapsto> JSON_stringify P (chats st)))
             (''currentChatId'' \<mapsto> currentChatId st)\<rparr>"

text \<open>
  \<^verbatim>\<open>data ? JSON.parse(data) : {}\<close>: a missing item and the empty text are both falsy. There
  is no \<^verbatim>\<open>try\<close> around \<^verbatim>\<open>JSON.parse\<close>: what it throws, \<^verbatim>\<open>loadAllChats\<close> throws.
\<close>

definition loadAllChats :: "platform \<Rightarrow> (string \<rightharpoonup> string) \<Rightarrow> js_error + (string \<rightharpoonup> chat)" where
  "loadAllChats P ls =
     (case ls ''pdb-ai-chats'' of
        None \<Rightarrow> Inr Map.empty
      | Some data \<Rightarrow> if data = [] then Inr Map.empty else JSON_parse P data)"

definition getCurrentChatId :: "nat \<Rightarrow> (string \<rightharpoonup> string) \<Rightarrow> string \<times> (string \<rightharpoonup> string)" where
  "getCurrentChatId now ls =
     (case ls ''currentChatId'' of
        None \<Rightarrow> (''chat-'' @ decimal now, ls(''currentChatId'' \<mapsto> ''chat-'' @ decimal now))
      | Some i \<Rightarrow>
          if i = [] then (''chat-'' @ decimal now, ls(''currentChatId'' \<mapsto> ''chat-'' @ decimal now))
          else (i, ls))"

section \<open>Rendering\<close>

text \<open>
  Of \<^verbatim>\<open>renderMessage\<close> the model keeps what the rest of the script can observe: the node
  appended to \<^verbatim>\<open>chat-container\<close>, and the exception. \<^verbatim>\<open>formatText(msg.text)\<close> is called when
  \<^verbatim>\<open>msg.text\<close> is truthy and calls \<^verbatim>\<open>text.replace\<close>, which only a string has; the throw comes
  before \<^verbatim>\<open>appendChild\<close>. Of the markup produced the node keeps the elements with ids.
\<close>

definition renderMessage :: "platform \<Rightarrow> message \<Rightarrow> state \<Rightarrow> completion \<times> state" where
  "renderMessage P msg st =
     (if truthy (msg_text msg) \<and> \<not> is_string (msg_text msg) then (Throw TypeError, st)
      else (Normal, st\<lparr>chatContainer := chatContainer st @ [Message_node msg (markup P msg)]\<rparr>))"

text \<open>\<^verbatim>\<open>forEach(renderMessage)\<close>: an exception ends the loop.\<close>

fun forEach_renderMessage :: "platform \<Rightarrow> message list \<Rightarrow> state \<Rightarrow> completion \<times> state" where
  "forEach_renderMessage P [] st = (Normal, st)"
| "forEach_renderMessage P (m # ms) st =
     (case renderMessage P m st of
        (Throw e, st') \<Rightarrow> (Throw e, st')
      | (Normal, st') \<Rightarrow> forEach_renderMessage P ms st')"

text \<open>
  \<^verbatim>\<open>(chats[id]?.messages || [])\<close>: the messages of the conversation, and nothing where
  \<^verbatim>\<open>chats[id]\<close> is \<^verbatim>\<open>undefined\<close> or something inherited, which has no \<^verbatim>\<open>messages\<close>.
\<close>

definition renderChat :: "platform \<Rightarrow> string \<Rightarrow> state \<Rightarrow> completion \<times> state" where
  "renderChat P i st =
     forEach_renderMessage P (case chats st i of None \<Rightarrow> [] | Some c \<Rightarrow> messages c)
       (st\<lparr>chatContainer := []\<rparr>)"

definition showTypingIndicator :: "nat \<Rightarrow> state \<Rightarrow> string \<times> state" where
  "showTypingIndicator now st =
     (''typing-'' @ decimal now,
      st\<lparr>chatContainer := chatContainer st @ [Typing_node (''typing-'' @ decimal now)]\<rparr>)"

text \<open>
  \<^verbatim>\<open>document.getElementById(id)\<close> finds the first element of the page with the id, in
  document order, and \<^verbatim>\<open>el.remove()\<close> takes it out with all that is inside it. Inside
  \<^verbatim>\<open>chat-container\<close> that element is a typing indicator, or an element that the markup of a
  message has brought in. The page outside \<^verbatim>\<open>chat-container\<close> is not part of the sources;
  it is taken to hold no element whose id begins with \<^verbatim>\<open>typing-\<close>.

  \<open>remove_element i es\<close> removes the first element with the id \<open>i\<close> from the elements
  \<open>es\<close>, when there is one.
\<close>

fun remove_element :: "string \<Rightarrow> element list \<Rightarrow> element list option" where
  "remove_element i [] = None"
| "remove_element i (Element j inner # es) =
     (if j = i then Some es
      else case remove_element i inner of
             Some inner' \<Rightarrow> Some (Element j inner' # es)
           | None \<Rightarrow>
               (case remove_element i es of
                  Some es' \<Rightarrow> Some (Element j inner # es')
                | None \<Rightarrow> None))"

fun remove_by_id :: "string \<Rightarrow> node list \<Rightarrow> node list" where
  "remove_by_id i [] = []"
| "remove_by_id i (Typing_node j # ns) =
     (if j = i then ns else Typing_node j # remove_by_id i ns)"
| "remove_by_id i (Message_node m es # ns) =
     (case remove_element i es of
        Some es' \<Rightarrow> Message_node m es' # ns
      | None \<Rightarrow> Message_node m es # remove_by_id i ns)"

definition removeTypingIndicator :: "string \<Rightarrow> state \<Rightarrow> state" where
  "removeTypingIndicator i st = st\<lparr>chatContainer := remove_by_id i (chatContainer st)\<rparr>"

section \<open>Conversation repository\<close>

definition greeting :: string where
  "greeting = ''Hello! I'm PDB AI, your advanced assistant. How can I help you today?''"

text \<open>
  The object literal that \<^verbatim>\<open>initializeChat\<close> and \<^verbatim>\<open>startNewChat\<close> both write out: a
  conversation holding the one greeting.
\<close>

definition seeded_chat :: "platform \<Rightarrow> string \<Rightarrow> nat \<Rightarrow> chat" where
  "seeded_chat P i now =
     \<lparr>chat_id = i, createdAt = toISOString P now, updatedAt = toISOString P now,
      messages = [\<lparr>sender = ''ai'', msg_text = Some (JStr greeting), msg_file = None,
                   timestamp = toISOString P now\<rparr>]\<rparr>"

text \<open>
  \<open>chats\<close> is a plain object, so \<^verbatim>\<open>chats[k]\<close> is its own property \<open>k\<close> when it has one, and
  otherwise what \<^verbatim>\<open>Object.prototype\<close> has under \<open>k\<close>: a function for eleven names and the
  prototype itself for \<^verbatim>\<open>__proto__\<close>, all of them truthy and none of them a conversation.
  \<^verbatim>\<open>!chats[currentChatId]\<close> therefore holds when the id has no conversation and is not one
  of these names.
\<close>

definition inherited :: "string \<Rightarrow> bool" where
  "inherited k \<longleftrightarrow>
     k \<in> set [''constructor'', ''hasOwnProperty'', ''isPrototypeOf'', ''propertyIsEnumerable'',
              ''toLocaleString'', ''toString'', ''valueOf'', ''__proto__'',
              ''__defineGetter__'', ''__defineSetter__'', ''__lookupGetter__'',
              ''__lookupSetter__'']"

definition initializeChat :: "platform \<Rightarrow> nat \<Rightarrow> state \<Rightarrow> completion \<times> state" where
  "initializeChat P now st =
     (let st1 =
        (if chats st (currentChatId st) = None \<and> \<not> inherited (currentChatId st)
         then saveAllChats P
                (st\<lparr>chats := (chats st)(currentChatId st \<mapsto> seeded_chat P (currentChatId st) now)\<rparr>)
         else st)
      in renderChat P (currentChatId st1) st1)"

text \<open>
  \<^verbatim>\<open>chats[currentChatId].messages.push(msg)\<close> throws a TypeError when there is no such
  conversation, before anything is changed: \<^verbatim>\<open>chats[currentChatId]\<close> is then \<^verbatim>\<open>undefined\<close>, or
  something inherited whose \<^verbatim>\<open>messages\<close> is \<^verbatim>\<open>undefined\<close>.
\<close>

definition addMessage :: "platform \<Rightarrow> message \<Rightarrow> nat \<Rightarrow> state \<Rightarrow> completion \<times> state" where
  "addMessage P msg now st =
     (case chats st (currentChatId st) of
        None \<Rightarrow> (Throw TypeError, st)
      | Some c \<Rightarrow>
          renderMessage P msg
            (saveAllChats P
               (st\<lparr>chats := (chats st)(currentChatId st \<mapsto>
                       c\<lparr>messages := messages c @ [msg], updatedAt := toISOString P now\<rparr>)\<rparr>)))"

definition stopRecording :: "state \<Rightarrow> state" where
  "stopRecording st = st\<lparr>isRecording := False\<rparr>"

definition resetInput :: "state \<Rightarrow> state" where
  "resetInput st =
     (let st1 = (if isRecording st then stopRecording st else st)
      in st1\<lparr>promptInput := [], currentFile := None, uploadActive := False,
             aborted := insert (abortController st1) (aborted st1),
             abortController := Suc (abortController st1)\<rparr>)"

definition startNewChat :: "platform \<Rightarrow> nat \<Rightarrow> state \<Rightarrow> completion \<times> state" where
  "startNewChat P now st =
     (let st1 = st\<lparr>currentChatId := ''chat-'' @ decimal now\<rparr>;
          st2 = st1\<lparr>chats := (chats st1)(currentChatId st1 \<mapsto> seeded_chat P (currentChatId st1) now)\<rparr>
      in case renderChat P (currentChatId st2) (saveAllChats P st2) of
           (Throw e, st3) \<Rightarrow> (Throw e, st3)
         | (Normal, st3) \<Rightarrow> (Normal, resetInput st3))"

definition handleFileUpload :: "file_desc option \<Rightarrow> state \<Rightarrow> state" where
  "handleFileUpload f st =
     (case f of None \<Rightarrow> st | Some d \<Rightarrow> st\<lparr>currentFile := Some d, uploadActive := True\<rparr>)"

section \<open>Request controller\<close>

text \<open>
  \<^verbatim>\<open>messages.map(m => `${m.sender}: ${m.text}`).join('\n')\<close>. \<open>join_lines\<close> is
  \<^verbatim>\<open>Array.prototype.join\<close> with the separator \<^verbatim>\<open>'\n'\<close> on an array of strings.
\<close>

definition prompt_line :: "message \<Rightarrow> js_error + string" where
  "prompt_line m =
     (case ToString_val (msg_text m) of Inl e \<Rightarrow> Inl e | Inr t \<Rightarrow> Inr (sender m @ '': '' @ t))"

fun map_lines :: "message list \<Rightarrow> js_error + string list" where
  "map_lines [] = Inr []"
| "map_lines (m # ms) =
     (case prompt_line m of
        Inl e \<Rightarrow> Inl e
      | Inr l \<Rightarrow> (case map_lines ms of Inl e \<Rightarrow> Inl e | Inr ls \<Rightarrow> Inr (l # ls)))"

fun join_lines :: "string list \<Rightarrow> string" where
  "join_lines [] = []"
| "join_lines [l] = l"
| "join_lines (l # ls) = l @ [CHR 0x0A] @ join_lines ls"

definition buildPrompt :: "message list \<Rightarrow> js_error + string" where
  "buildPrompt ms = (case map_lines ms of Inl e \<Rightarrow> Inl e | Inr ls \<Rightarrow> Inr (join_lines ls))"

text \<open>
  How a call of \<^verbatim>\<open>fetch\<close> ends: the promise is rejected, or it is fulfilled with a response
  of some status, whose \<^verbatim>\<open>res.json()\<close> is then rejected or gives the value of the body.
  Once \<^verbatim>\<open>abort()\<close> has been called on the controller of the call's signal, the browser
  rejects whichever of the two promises is still pending with an AbortError.
\<close>

datatype fetch_outcome = Rejected js_error | Response nat "js_error + json"

definition fetch_result :: "state \<Rightarrow> pending_call \<Rightarrow> fetch_outcome \<Rightarrow> fetch_outcome" where
  "fetch_result st c network = (if signal c \<in> aborted st then Rejected AbortError else network)"

definition res_ok :: "nat \<Rightarrow> bool" where
  "res_ok status \<longleftrightarrow> 200 \<le> status \<and> status \<le> 299"

text \<open>\<^verbatim>\<open>data.candidates[0].content.parts[0].text\<close>\<close>

definition reply_text :: "json \<Rightarrow> js_error + jsval" where
  "reply_text data =
     then_get (then_get (then_get (then_get (then_get
       (js_get (Some data) (Name ''candidates'')) (Index 0)) (Name ''content''))
       (Name ''parts'')) (Index 0)) (Name ''text'')"

text \<open>The part of \<^verbatim>\<open>getAIResponse\<close> after \<^verbatim>\<open>await fetch(...)\<close>: what it returns or throws.\<close>

definition getAIResponse :: "fetch_outcome \<Rightarrow> js_error + jsval" where
  "getAIResponse outcome =
     (case outcome of
        Rejected e \<Rightarrow> Inl e
      | Response status body \<Rightarrow>
          if \<not> res_ok status then Inl (Error (''API failed: '' @ decimal status))
          else (case body of Inl e \<Rightarrow> Inl e | Inr data \<Rightarrow> reply_text data))"

section \<open>Message pipeline\<close>

definition apology :: string where
  "apology = ''Sorry, I encountered an error. Please try again.''"

text \<open>
  The \<^verbatim>\<open>catch (err)\<close> block of \<^verbatim>\<open>sendMessage\<close>, for the typing indicator \<open>tid\<close> of that
  call. It asks nothing about \<open>err\<close>.
\<close>

definition catch_block :: "platform \<Rightarrow> string \<Rightarrow> js_error \<Rightarrow> nat \<Rightarrow> state \<Rightarrow> completion \<times> state" where
  "catch_block P tid err now st =
     (let st1 = removeTypingIndicator tid st;
          st2 = st1\<lparr>console := console st1 @ [err]\<rparr>
      in addMessage P
           \<lparr>sender = ''ai'', msg_text = Some (JStr apology), msg_file = None,
            timestamp = toISOString P now\<rparr> now st2)"

text \<open>
  \<^verbatim>\<open>sendMessage\<close> up to its \<^verbatim>\<open>await\<close>. The call of \<^verbatim>\<open>getAIResponse\<close> runs as far as \<^verbatim>\<open>fetch\<close>,
  which is handed the signal of the controller just made; the call then waits in
  \<open>inflight\<close>. An exception while the prompt is built rejects the promise of
  \<^verbatim>\<open>getAIResponse\<close> and reaches the \<^verbatim>\<open>catch\<close> block before any other handler runs.
\<close>

definition sendMessage :: "platform \<Rightarrow> nat \<Rightarrow> state \<Rightarrow> completion \<times> state" where
  "sendMessage P now st =
     (let text = trim (promptInput st) in
      if text = [] \<and> currentFile st = None then (Normal, st)
      else
        let st1 = st\<lparr>aborted := insert (abortController st) (aborted st),
                     abortController := Suc (abortController st)\<rparr>;
            userMsg = \<lparr>sender = ''user'', msg_text = Some (JStr text),
                       msg_file = Some (currentFile st1),
                       timestamp = toISOString P now\<rparr>
        in case addMessage P userMsg now st1 of
             (Throw e, st2) \<Rightarrow> (Throw e, st2)
           | (Normal, st2) \<Rightarrow>
               (let st3 = st2\<lparr>promptInput := [], currentFile := None, uploadActive := False\<rparr>;
                    (tid, st4) = showTypingIndicator now st3
                in case chats st4 (currentChatId st4) of
                     None \<Rightarrow> catch_block P tid TypeError now st4
                   | Some c \<Rightarrow>
                       (case buildPrompt (messages c) of
                          Inl e \<Rightarrow> catch_block P tid e now st4
                        | Inr p \<Rightarrow>
                            (Normal,
                             st4\<lparr>inflight := inflight st4 @
                                    [\<lparr>signal = abortController st4, typingId = tid, prompt = p\<rparr>]\<rparr>))))"

text \<open>
  \<^verbatim>\<open>sendMessage\<close> from its \<^verbatim>\<open>await\<close> on, for the call \<open>c\<close> whose \<^verbatim>\<open>fetch\<close> ended with
  \<open>outcome\<close>: the rest of the \<^verbatim>\<open>try\<close> block, or the \<^verbatim>\<open>catch\<close> block.
\<close>

definition sendMessage_resume ::
    "platform \<Rightarrow> pending_call \<Rightarrow> fetch_outcome \<Rightarrow> nat \<Rightarrow> state \<Rightarrow> completion \<times> state" where
  "sendMessage_resume P c outcome now st =
     (case getAIResponse outcome of
        Inl err \<Rightarrow> catch_block P (typingId c) err now st
      | Inr responseText \<Rightarrow>
          (case addMessage P
                  \<lparr>sender = ''ai'', msg_text = responseText, msg_file = None,
                   timestamp = toISOString P now\<rparr> now
                  (removeTypingIndicator (typingId c) st) of
             (Throw err, st') \<Rightarrow> catch_block P (typingId c) err now st'
           | (Normal, st') \<Rightarrow> (Normal, st')))"

section \<open>The handlers as a machine\<close>

text \<open>
  What can happen to the page after start-up, each with the clock reading of that moment:
  the input field is given a text (typed or dictated), a file is chosen, the send button
  or Enter, the new-chat button, and the call at some position of \<open>inflight\<close> coming to
  its end with what the network delivered. An exception that leaves a handler is reported
  by the browser and the page goes on with the state as it then is.

  Within one run of a handler every reading of the clock gives the same value. The
  continuation of an aborted call is an event like the others: the browser runs it as
  soon as the handler that aborted it has returned, which is one of the orders the
  machine allows. Voice capture is left out except for the text it puts into the input
  field; nothing here ever sets \<open>isRecording\<close>.
\<close>

datatype event =
    Input string
  | FileChosen "file_desc option"
  | Submit nat
  | NewChat nat
  | Settle nat fetch_outcome nat

definition step :: "platform \<Rightarrow> state \<Rightarrow> event \<Rightarrow> state" where
  "step P st ev =
     (case ev of
        Input s \<Rightarrow> st\<lparr>promptInput := s\<rparr>
      | FileChosen f \<Rightarrow> handleFileUpload f st
      | Submit now \<Rightarrow> snd (sendMessage P now st)
      | NewChat now \<Rightarrow> snd (startNewChat P now st)
      | Settle i network now \<Rightarrow>
          if i < length (inflight st)
          then snd (sendMessage_resume P (inflight st ! i)
                      (fetch_result st (inflight st ! i) network) now
                      (st\<lparr>inflight := take i (inflight st) @ drop (Suc i) (inflight st)\<rparr>))
          else st)"

fun run :: "platform \<Rightarrow> state \<Rightarrow> event list \<Rightarrow> state" where
  "run P st [] = st"
| "run P st (ev # evs) = run P (step P st ev) evs"

text \<open>
  The handler of \<^verbatim>\<open>DOMContentLoaded\<close>: the declarations of the state, then
  \<^verbatim>\<open>initializeChat()\<close>. \<^verbatim>\<open>setupEvents()\<close> comes last, so when an exception leaves the
  handler no listener has been installed and there is no running page (\<open>Inl\<close>).
\<close>

definition init :: "platform \<Rightarrow> (string \<rightharpoonup> string) \<Rightarrow> nat \<Rightarrow> js_error + state" where
  "init P ls now =
     (let (i, ls1) = getCurrentChatId now ls in
      case loadAllChats P ls1 of
        Inl e \<Rightarrow> Inl e
      | Inr cs \<Rightarrow>
          (case initializeChat P now
                  \<lparr>isRecording = False, currentFile = None, currentChatId = i, chats = cs,
                   abortController = 0, aborted = {}, promptInput = [], uploadActive = False,
                   chatContainer = [], localStorage = ls1, console = [], inflight = []\<rparr> of
             (Throw e, st) \<Rightarrow> Inl e
           | (Normal, st) \<Rightarrow> Inr st))"

section \<open>JSON texts\<close>


















definition closes :: "string \<Rightarrow> bool" where
  "closes rest \<longleftrightarrow> rest = [] \<or> hd rest \<in> set '',]}''"















section \<open>Notions used in the statements\<close>

text \<open>
  The prompt in the words of the specification: one line per message,
  \<^verbatim>\<open><sender>: <text>\<close>, in the order of the messages, the lines joined by newlines. Every
  line is closed by a newline and the last newline is dropped. \<open>text_of\<close> is the text of a
  message as a string: a text that is a string is itself, and any other is what the
  conversion to a string makes of it (\<^verbatim>\<open>undefined\<close> for a missing text).
  \<open>convertible v\<close>: that conversion does not throw.
\<close>

definition convertible :: "jsval \<Rightarrow> bool" where
  "convertible v = (case ToString_val v of Inr s \<Rightarrow> True | Inl e \<Rightarrow> False)"

definition text_of :: "message \<Rightarrow> string" where
  "text_of m = (case ToString_val (msg_text m) of Inr s \<Rightarrow> s | Inl e \<Rightarrow> [])"

definition prompt_spec :: "message list \<Rightarrow> string" where
  "prompt_spec ms = butlast (concat (map (\<lambda>m. sender m @ '': '' @ text_of m @ [CHR 0x0A]) ms))"

text \<open>
  \<^verbatim>\<open>data.candidates[0].content.parts[0]\<close>: the path of \<open>reply_text\<close> without its last step.
\<close>

definition reply_part :: "json \<Rightarrow> js_error + jsval" where
  "reply_part data =
     then_get (then_get (then_get (then_get
       (js_get (Some data) (Name ''candidates'')) (Index 0)) (Name ''content''))
       (Name ''parts'')) (Index 0)"

text \<open>
  \<open>appends_only st st'\<close>: from \<open>st\<close> to \<open>st'\<close> the current conversation is the same one, no
  other conversation has changed, none has been added, and the messages of the current
  conversation in \<open>st\<close> are still there in \<open>st'\<close>, in their places, possibly followed by
  more.
\<close>

definition appends_only :: "state \<Rightarrow> state \<Rightarrow> bool" where
  "appends_only st st' \<longleftrightarrow>
     currentChatId st' = currentChatId st \<and>
     (\<forall>i. i \<noteq> currentChatId st \<longrightarrow> chats st' i = chats st i) \<and>
     (case chats st (currentChatId st) of
        None \<Rightarrow> chats st' (currentChatId st) = None
      | Some c \<Rightarrow> (\<exists>c'. chats st' (currentChatId st) = Some c' \<and>
                       prefix (messages c) (messages c')))"

definition nonempty_chats :: "state \<Rightarrow> bool" where
  "nonempty_chats st \<longleftrightarrow> (\<forall>i c. chats st i = Some c \<longrightarrow> messages c \<noteq> [])"

section \<open>A first launch, for the examples\<close>

text \<open>
  The examples below run on a page opened for the first time when the clock reads 1000.
  Its platform writes the decimal text of an instant where a browser writes the ISO
  text, and knows two JSON texts: that of the empty mapping, and that of the mapping the
  first launch stores. Of the texts of messages that the examples use, one has markup
  with an id, \<^verbatim>\<open><i id=typing-1001></i>\<close>.
\<close>

definition example_chat :: chat where
  "example_chat =
     \<lparr>chat_id = ''chat-1000'', createdAt = ''1000'', updatedAt = ''1000'',
      messages = [\<lparr>sender = ''ai'', msg_text = Some (JStr greeting), msg_file = None,
                   timestamp = ''1000''\<rparr>]\<rparr>"

definition example_text :: string where
  \<open>example_text =
     ''{"chat-1000":{"id":"chat-1000","createdAt":"1000","updatedAt":"1000","messages":[{"sender":"ai","text":"Hello! I'm PDB AI, your advanced assistant. How can I help you today?","timestamp":"1000"}]}}''\<close>

definition example_platform :: platform where
  "example_platform =
     \<lparr>JSON_stringify = (\<lambda>cs. example_text),
      JSON_parse = (\<lambda>s. if s = example_text then Inr [''chat-1000'' \<mapsto> example_chat]
                         else if s = ''{}'' then Inr Map.empty else Inl SyntaxError),
      toISOString = decimal,
      markup = (\<lambda>m. if msg_text m = Some (JStr ''<i id=typing-1001></i>'')
                     then [Element ''typing-1001'' []] else [])\<rparr>"

definition example_state :: state where
  "example_state =
     \<lparr>isRecording = False, currentFile = None, currentChatId = ''chat-1000'',
      chats = [''chat-1000'' \<mapsto> example_chat],
      abortController = 0, aborted = {}, promptInput = [], uploadActive = False,
      chatContainer = [Message_node (hd (messages example_chat)) []],
      localStorage = [''currentChatId'' \<mapsto> ''chat-1000'', ''pdb-ai-chats'' \<mapsto> example_text],
      console = [], inflight = []\<rparr>"

text \<open>
  A reply of the endpoint in the expected shape, and one whose \<^verbatim>\<open>parts[0]\<close> is an object
  without \<^verbatim>\<open>text\<close>.
\<close>

definition example_reply :: "string \<Rightarrow> json" where
  "example_reply t =
     JObj [(''candidates'', JArr [JObj [(''content'',
       JObj [(''parts'', JArr [JObj [(''text'', JStr t)]])])]])]"

definition example_reply_with :: "json \<Rightarrow> json" where
  "example_reply_with t =
     JObj [(''candidates'', JArr [JObj [(''content'',
       JObj [(''parts'', JArr [JObj [(''text'', t)]])])]])]"

definition example_reply_without_text :: json where
  "example_reply_without_text =
     JObj [(''candidates'', JArr [JObj [(''content'', JObj [(''parts'', JArr [JObj []])])]])]"

definition example_call :: pending_call where
  "example_call = \<lparr>signal = 1, typingId = ''typing-1001'', prompt = ''ai: hello''\<rparr>"







section \<open>Properties\<close>

subsection \<open>Texts and numbers\<close>

lemma trim_Nil_iff: "trim s = [] \<longleftrightarrow> (\<forall>c\<in>set s. is_space c)"
proof
  assume "trim s = []"
  then have a: "\<forall>c\<in>set (dropWhile is_space s). is_space c"
    by (simp add: trim_def dropWhile_eq_Nil_conv)
  have "dropWhile is_space s = []"
  proof (rule ccontr)
    assume n: "dropWhile is_space s \<noteq> []"
    then have "\<not> is_space (hd (dropWhile is_space s))" by (rule hd_dropWhile)
    moreover have "hd (dropWhile is_space s) \<in> set (dropWhile is_space s)" using n by simp
    ultimately show False using a by blast
  qed
  then show "\<forall>c\<in>set s. is_space c" by (simp add: dropWhile_eq_Nil_conv)
next
  assume "\<forall>c\<in>set s. is_space c"
  then have "dropWhile is_space s = []" by (simp add: dropWhile_eq_Nil_conv)
  then show "trim s = []" by (simp add: trim_def del: dropWhile_eq_Nil_conv)
qed

lemma digit_char_inj:
  assumes "a < 10" and "b < 10" and "digit_char a = digit_char b"
  shows "a = b"
proof -
  have "distinct ''0123456789''" by simp
  moreover have "a < length ''0123456789''" "b < length ''0123456789''" using assms by simp_all
  ultimately show ?thesis
    using assms(3) unfolding digit_char_def by (simp only: nth_eq_iff_index_eq)
qed

lemma decimal_not_Nil: "decimal n \<noteq> []"
  by (subst decimal.simps) simp

lemma decimal_inj: "decimal m = decimal n \<Longrightarrow> m = n"
proof (induction m arbitrary: n rule: decimal.induct)
  case (1 m)
  show ?case
  proof (cases "m < 10")
    case m: True
    show ?thesis
    proof (cases "n < 10")
      case True
      then have "[digit_char m] = [digit_char n]"
        using "1.prems" m by (simp add: decimal.simps [of m] decimal.simps [of n])
      then show ?thesis using m True digit_char_inj by simp
    next
      case False
      then have "length (decimal n) \<ge> 2"
        using decimal_not_Nil [of "n div 10"]
        by (simp add: decimal.simps [of n] Suc_le_eq)
      moreover have "length (decimal m) = 1" using m by (simp add: decimal.simps [of m])
      ultimately show ?thesis using "1.prems" by simp
    qed
  next
    case m: False
    show ?thesis
    proof (cases "n < 10")
      case True
      then have "length (decimal n) = 1" by (simp add: decimal.simps [of n])
      moreover have "length (decimal m) \<ge> 2"
        using m decimal_not_Nil [of "m div 10"]
        by (simp add: decimal.simps [of m] Suc_le_eq)
      ultimately show ?thesis using "1.prems" by simp
    next
      case False
      then have "decimal (m div 10) @ [digit_char (m mod 10)]
                 = decimal (n div 10) @ [digit_char (n mod 10)]"
        using "1.prems" m by (simp add: decimal.simps [of m] decimal.simps [of n])
      then have d: "decimal (m div 10) = decimal (n div 10)"
        and c: "digit_char (m mod 10) = digit_char (n mod 10)" by simp_all
      have "m div 10 = n div 10" using "1.IH" [OF m d] .
      moreover have "m mod 10 = n mod 10" using c digit_char_inj [of "m mod 10" "n mod 10"] by simp
      ultimately show ?thesis by (metis div_mult_mod_eq)
    qed
  qed
qed

lemma decimal_1000: "decimal 1000 = ''1000''"
  by (simp add: decimal.simps digit_char_def)


lemma is_string_conv: "is_string v \<longleftrightarrow> (\<exists>s. v = Some (JStr s))"
  by (cases v rule: is_string.cases) simp_all

subsection \<open>The prompt\<close>

lemma convertible_string: "convertible (Some (JStr s))"
  by (simp add: convertible_def)

lemma prompt_line_convertible:
  "convertible (msg_text m) \<Longrightarrow> prompt_line m = Inr (sender m @ '': '' @ text_of m)"
  by (simp add: convertible_def prompt_line_def text_of_def split: sum.splits)

lemma map_lines_convertible:
  "\<forall>m\<in>set ms. convertible (msg_text m) \<Longrightarrow>
     map_lines ms = Inr (map (\<lambda>m. sender m @ '': '' @ text_of m) ms)"
  by (induction ms) (simp_all add: prompt_line_convertible)

lemma join_lines_butlast:
  "join_lines ls = butlast (concat (map (\<lambda>l. l @ [CHR 0x0A]) ls))"
proof (induction ls rule: join_lines.induct)
  case 1
  show ?case by simp
next
  case (2 l)
  show ?case by (simp add: butlast_append)
next
  case (3 l v va)
  then show ?case by (simp add: butlast_append)
qed

lemma buildPrompt_convertible:
  assumes "\<forall>m\<in>set ms. convertible (msg_text m)"
  shows "buildPrompt ms = Inr (prompt_spec ms)"
proof -
  have "concat (map (\<lambda>l. l @ [CHR 0x0A]) (map (\<lambda>m. sender m @ '': '' @ text_of m) ms))
        = concat (map (\<lambda>m. sender m @ '': '' @ text_of m @ [CHR 0x0A]) ms)"
    by (simp add: comp_def)
  then show ?thesis
    by (simp add: buildPrompt_def map_lines_convertible [OF assms] join_lines_butlast
        prompt_spec_def)
qed

subsection \<open>What each operation leaves alone\<close>

lemma saveAllChats_frame:
  "chats (saveAllChats P st) = chats st"
  "currentChatId (saveAllChats P st) = currentChatId st"
  by (simp_all add: saveAllChats_def)

lemma renderMessage_frame:
  "chats (snd (renderMessage P m st)) = chats st"
  "currentChatId (snd (renderMessage P m st)) = currentChatId st"
  "inflight (snd (renderMessage P m st)) = inflight st"
  by (simp_all add: renderMessage_def)

lemma forEach_renderMessage_frame:
  "chats (snd (forEach_renderMessage P ms st)) = chats st \<and>
   currentChatId (snd (forEach_renderMessage P ms st)) = currentChatId st \<and>
   inflight (snd (forEach_renderMessage P ms st)) = inflight st"
proof (induction ms arbitrary: st)
  case Nil
  show ?case by simp
next
  case (Cons m ms)
  show ?case
  proof (cases "renderMessage P m st")
    case (Pair r st')
    then have f: "chats st' = chats st" "currentChatId st' = currentChatId st" "inflight st' = inflight st"
      using renderMessage_frame [of P m st] by simp_all
    show ?thesis using Pair f Cons.IH [of st'] by (cases r) simp_all
  qed
qed

lemma renderChat_frame:
  "chats (snd (renderChat P i st)) = chats st"
  "currentChatId (snd (renderChat P i st)) = currentChatId st"
  "inflight (snd (renderChat P i st)) = inflight st"
  using forEach_renderMessage_frame [of P "case chats st i of None \<Rightarrow> [] | Some c \<Rightarrow> messages c"
      "st\<lparr>chatContainer := []\<rparr>"]
  by (simp_all add: renderChat_def)

lemma renderChat_localStorage: "localStorage (snd (renderChat P i st)) = localStorage st"
proof -
  have "localStorage (snd (forEach_renderMessage P ms s)) = localStorage s" for ms s
  proof (induction ms arbitrary: s)
    case Nil show ?case by simp
  next
    case (Cons m ms)
    show ?case
      using Cons.IH [of "s\<lparr>chatContainer := chatContainer s @ [Message_node m (markup P m)]\<rparr>"]
      by (simp add: renderMessage_def)
  qed
  then show ?thesis by (simp add: renderChat_def)
qed

lemma forEach_renderMessage_container:
  "(snd (forEach_renderMessage P ms s))\<lparr>chatContainer := x\<rparr> = s\<lparr>chatContainer := x\<rparr>"
proof (induction ms arbitrary: s)
  case Nil
  show ?case by simp
next
  case (Cons m ms)
  show ?case
    using Cons.IH [of "s\<lparr>chatContainer := chatContainer s @ [Message_node m (markup P m)]\<rparr>"]
    by (simp add: renderMessage_def)
qed

lemma renderChat_again: "renderChat P i (snd (renderChat P i st)) = renderChat P i st"
proof -
  let ?ms = "case chats st i of None \<Rightarrow> [] | Some c \<Rightarrow> messages c"
  have "chats (snd (renderChat P i st)) = chats st" by (rule renderChat_frame)
  moreover have "(snd (renderChat P i st))\<lparr>chatContainer := []\<rparr> = st\<lparr>chatContainer := []\<rparr>"
    using forEach_renderMessage_container [where ms = ?ms and s = "st\<lparr>chatContainer := []\<rparr>" and x = "[]"]
    by (simp add: renderChat_def)
  ultimately show ?thesis by (simp add: renderChat_def)
qed

lemma resetInput_frame:
  "chats (resetInput st) = chats st"
  "currentChatId (resetInput st) = currentChatId st"
  "localStorage (resetInput st) = localStorage st"
  by (simp_all add: resetInput_def stopRecording_def Let_def)

lemma addMessage_frame:
  "currentChatId (snd (addMessage P msg now st)) = currentChatId st"
  "inflight (snd (addMessage P msg now st)) = inflight st"
  "chats (snd (addMessage P msg now st)) =
     (case chats st (currentChatId st) of
        None \<Rightarrow> chats st
      | Some c \<Rightarrow> (chats st)(currentChatId st \<mapsto>
          c\<lparr>messages := messages c @ [msg], updatedAt := toISOString P now\<rparr>))"
  by (simp_all add: addMessage_def saveAllChats_def renderMessage_def split: option.splits)

lemma catch_block_frame:
  "currentChatId (snd (catch_block P tid err now st)) = currentChatId st"
  "inflight (snd (catch_block P tid err now st)) = inflight st"
  by (simp_all add: catch_block_def Let_def addMessage_frame removeTypingIndicator_def)

subsection \<open>Appending a message\<close>

lemma addMessage_renders:
  assumes "chats st (currentChatId st) = Some c"
    and "\<not> truthy (msg_text msg) \<or> is_string (msg_text msg)"
  shows "addMessage P msg now st =
     (Normal,
      st\<lparr>chats := (chats st)(currentChatId st \<mapsto>
                c\<lparr>messages := messages c @ [msg], updatedAt := toISOString P now\<rparr>),
         localStorage :=
           ((localStorage st)(''pdb-ai-chats'' \<mapsto> JSON_stringify P ((chats st)(currentChatId st \<mapsto>
                c\<lparr>messages := messages c @ [msg], updatedAt := toISOString P now\<rparr>))))
             (''currentChatId'' \<mapsto> currentChatId st),
         chatContainer := chatContainer st @ [Message_node msg (markup P msg)]\<rparr>)"
  using assms by (auto simp add: addMessage_def saveAllChats_def renderMessage_def)

lemma catch_block_appends:
  assumes "chats st (currentChatId st) = Some c"
  shows "catch_block P tid err now st =
     (Normal,
      st\<lparr>chats := (chats st)(currentChatId st \<mapsto>
                c\<lparr>messages := messages c @
                     [\<lparr>sender = ''ai'', msg_text = Some (JStr apology), msg_file = None,
                       timestamp = toISOString P now\<rparr>],
                  updatedAt := toISOString P now\<rparr>),
         localStorage :=
           ((localStorage st)(''pdb-ai-chats'' \<mapsto> JSON_stringify P ((chats st)(currentChatId st \<mapsto>
                c\<lparr>messages := messages c @
                     [\<lparr>sender = ''ai'', msg_text = Some (JStr apology), msg_file = None,
                       timestamp = toISOString P now\<rparr>],
                  updatedAt := toISOString P now\<rparr>))))
             (''currentChatId'' \<mapsto> currentChatId st),
         chatContainer := remove_by_id tid (chatContainer st) @
             [Message_node \<lparr>sender = ''ai'', msg_text = Some (JStr apology), msg_file = None,
                       timestamp = toISOString P now\<rparr>
                (markup P \<lparr>sender = ''ai'', msg_text = Some (JStr apology), msg_file = None,
                       timestamp = toISOString P now\<rparr>)],
         console := console st @ [err]\<rparr>)"
proof -
  let ?st2 = "(removeTypingIndicator tid st)\<lparr>console := console (removeTypingIndicator tid st) @ [err]\<rparr>"
  have c: "chats ?st2 (currentChatId ?st2) = Some c"
    using assms by (simp add: removeTypingIndicator_def)
  show ?thesis
    unfolding catch_block_def Let_def
    by (subst addMessage_renders [OF c]) (simp_all add: removeTypingIndicator_def)
qed

lemma reply_text_part: "reply_text data = then_get (reply_part data) (Name ''text'')"
  by (simp add: reply_text_def reply_part_def)

subsection \<open>Conversations only grow\<close>

lemma appends_only_same:
  "chats b = chats a \<Longrightarrow> currentChatId b = currentChatId a \<Longrightarrow> appends_only a b"
  by (simp add: appends_only_def split: option.splits)

lemma appends_only_trans:
  assumes "appends_only a b" and "appends_only b c"
  shows "appends_only a c"
proof (cases "chats a (currentChatId a)")
  case None
  then show ?thesis using assms by (simp add: appends_only_def)
next
  case (Some x)
  then obtain y where y: "chats b (currentChatId a) = Some y" "prefix (messages x) (messages y)"
    using assms(1) by (auto simp add: appends_only_def)
  then obtain z where z: "chats c (currentChatId a) = Some z" "prefix (messages y) (messages z)"
    using assms by (auto simp add: appends_only_def)
  have "prefix (messages x) (messages z)"
    using y(2) z(2) by (rule prefix_order.order_trans)
  then show ?thesis using Some z(1) assms by (simp add: appends_only_def)
qed

lemma appends_only_prefix:
  assumes "appends_only st st'" and "chats st i = Some c"
  shows "\<exists>c'. chats st' i = Some c' \<and> prefix (messages c) (messages c')"
proof (cases "i = currentChatId st")
  case True
  then show ?thesis using assms by (simp add: appends_only_def)
next
  case False
  then show ?thesis using assms by (simp add: appends_only_def)
qed

lemma appends_only_nonempty:
  assumes "appends_only st st'" and "nonempty_chats st"
  shows "nonempty_chats st'"
  unfolding nonempty_chats_def
proof (intro allI impI)
  fix i c' assume s: "chats st' i = Some c'"
  show "messages c' \<noteq> []"
  proof (cases "i = currentChatId st")
    case False
    then have "chats st i = Some c'" using assms(1) s by (simp add: appends_only_def)
    then show ?thesis using assms(2) by (simp add: nonempty_chats_def)
  next
    case True
    then obtain c where c: "chats st i = Some c"
      using assms(1) s by (cases "chats st i") (auto simp add: appends_only_def)
    then have "messages c \<noteq> []" using assms(2) by (simp add: nonempty_chats_def)
    moreover have "prefix (messages c) (messages c')"
      using appends_only_prefix [OF assms(1) c] s by simp
    ultimately show ?thesis by auto
  qed
qed

lemma addMessage_appends: "appends_only st (snd (addMessage P msg now st))"
  unfolding appends_only_def by (simp add: addMessage_frame split: option.splits)

lemma catch_block_appends_only: "appends_only st (snd (catch_block P tid err now st))"
proof -
  let ?st2 = "(removeTypingIndicator tid st)\<lparr>console := console (removeTypingIndicator tid st) @ [err]\<rparr>"
  have "appends_only st ?st2" by (rule appends_only_same) (simp_all add: removeTypingIndicator_def)
  moreover have "appends_only ?st2 (snd (catch_block P tid err now st))"
    unfolding catch_block_def Let_def by (rule addMessage_appends)
  ultimately show ?thesis by (rule appends_only_trans)
qed

lemma sendMessage_resume_appends_only:
  "appends_only st (snd (sendMessage_resume P call outcome now st))"
proof (cases "getAIResponse outcome")
  case (Inl err)
  then show ?thesis by (simp add: sendMessage_resume_def catch_block_appends_only)
next
  case (Inr v)
  let ?m = "\<lparr>sender = ''ai'', msg_text = v, msg_file = None, timestamp = toISOString P now\<rparr>"
  let ?st1 = "removeTypingIndicator (typingId call) st"
  have 1: "appends_only st ?st1"
    by (rule appends_only_same) (simp_all add: removeTypingIndicator_def)
  have 2: "appends_only ?st1 (snd (addMessage P ?m now ?st1))" by (rule addMessage_appends)
  show ?thesis
  proof (cases "addMessage P ?m now ?st1")
    case (Pair r st')
    show ?thesis
    proof (cases r)
      case Normal
      then show ?thesis using Inr Pair appends_only_trans [OF 1 2]
        by (simp add: sendMessage_resume_def)
    next
      case (Throw e)
      have "appends_only st st'" using appends_only_trans [OF 1 2] Pair by simp
      then have "appends_only st (snd (catch_block P (typingId call) e now st'))"
        using catch_block_appends_only by (rule appends_only_trans)
      then show ?thesis using Inr Pair Throw by (simp add: sendMessage_resume_def)
    qed
  qed
qed

lemma sendMessage_after_user:
  assumes nn: "\<not> (trim (promptInput st) = [] \<and> currentFile st = None)"
    and a: "addMessage P
              \<lparr>sender = ''user'', msg_text = Some (JStr (trim (promptInput st))),
               msg_file = Some (currentFile st), timestamp = toISOString P now\<rparr> now
              (st\<lparr>aborted := insert (abortController st) (aborted st),
                  abortController := Suc (abortController st)\<rparr>) = (Normal, st2)"
  shows "appends_only st2 (snd (sendMessage P now st))"
proof -
  from nn have n: "(trim (promptInput st) = [] \<and> currentFile st = None) = False" by simp
  let ?tid = "''typing-'' @ decimal now"
  let ?st4 = "st2\<lparr>promptInput := [], currentFile := None, uploadActive := False,
                  chatContainer := chatContainer st2 @ [Typing_node ?tid]\<rparr>"
  have 4: "appends_only st2 ?st4" by (rule appends_only_same) simp_all
  have 5: "appends_only st2 (snd (catch_block P ?tid e now ?st4))" for e
    using 4 catch_block_appends_only by (rule appends_only_trans)
  have 6: "appends_only st2 (?st4\<lparr>inflight := q\<rparr>)" for q
    using 4 by (rule appends_only_trans) (simp add: appends_only_same)
  show ?thesis
    using a 5 6
    by (simp add: sendMessage_def Let_def n showTypingIndicator_def split: option.splits sum.splits)
qed

lemma sendMessage_appends_only: "appends_only st (snd (sendMessage P now st))"
proof (cases "trim (promptInput st) = [] \<and> currentFile st = None")
  case True
  then show ?thesis by (simp add: sendMessage_def appends_only_same)
next
  case False
  then have nn: "(trim (promptInput st) = [] \<and> currentFile st = None) = False" by simp
  let ?st1 = "st\<lparr>aborted := insert (abortController st) (aborted st),
                     abortController := Suc (abortController st)\<rparr>"
  let ?u = "\<lparr>sender = ''user'', msg_text = Some (JStr (trim (promptInput st))),
             msg_file = Some (currentFile st), timestamp = toISOString P now\<rparr>"
  have 1: "appends_only st ?st1" by (rule appends_only_same) simp_all
  have 2: "appends_only ?st1 (snd (addMessage P ?u now ?st1))" by (rule addMessage_appends)
  note 12 = appends_only_trans [OF 1 2]
  show ?thesis
  proof (cases "addMessage P ?u now ?st1")
    case (Pair r st2)
    show ?thesis
    proof (cases r)
      case (Throw e)
      then show ?thesis using Pair 12 by (simp add: sendMessage_def Let_def nn)
    next
      case Normal
      let ?tid = "''typing-'' @ decimal now"
      let ?st4 = "st2\<lparr>promptInput := [], currentFile := None, uploadActive := False,
                      chatContainer := chatContainer st2 @ [Typing_node ?tid]\<rparr>"
      have 3: "appends_only st2 ?st4"
        by (rule appends_only_same) simp_all
      have 4: "appends_only st ?st4" using 12 Pair 3 by (simp add: appends_only_trans)
      have 5: "appends_only st (snd (catch_block P ?tid e now ?st4))" for e
        using 4 catch_block_appends_only by (rule appends_only_trans)
      have 6: "appends_only st (?st4\<lparr>inflight := q\<rparr>)" for q
        using 4 by (rule appends_only_trans) (simp add: appends_only_same)
      show ?thesis
        using Pair Normal 5 6
        by (simp add: sendMessage_def Let_def nn showTypingIndicator_def split: option.splits sum.splits)
    qed
  qed
qed

lemma sendMessage_grows_strictly:
  assumes c: "chats st (currentChatId st) = Some c"
    and nn: "\<not> (trim (promptInput st) = [] \<and> currentFile st = None)"
  shows "\<exists>c'. chats (snd (sendMessage P now st)) (currentChatId st) = Some c' \<and>
           prefix (messages c @
             [\<lparr>sender = ''user'', msg_text = Some (JStr (trim (promptInput st))),
               msg_file = Some (currentFile st), timestamp = toISOString P now\<rparr>]) (messages c')"
proof -
  let ?st1 = "st\<lparr>aborted := insert (abortController st) (aborted st),
                 abortController := Suc (abortController st)\<rparr>"
  let ?u = "\<lparr>sender = ''user'', msg_text = Some (JStr (trim (promptInput st))),
             msg_file = Some (currentFile st), timestamp = toISOString P now\<rparr>"
  have c1: "chats ?st1 (currentChatId ?st1) = Some c" using c by simp
  obtain st2 where a: "addMessage P ?u now ?st1 = (Normal, st2)"
    and c2: "chats st2 (currentChatId st) =
        Some (c\<lparr>messages := messages c @ [?u], updatedAt := toISOString P now\<rparr>)"
    and i2: "currentChatId st2 = currentChatId st"
    using addMessage_renders [OF c1, of ?u P now] by simp
  have "appends_only st2 (snd (sendMessage P now st))"
    using nn a by (rule sendMessage_after_user)
  then show ?thesis
    using appends_only_prefix [of st2 "snd (sendMessage P now st)" "currentChatId st"] c2
    by auto
qed

lemma step_appends_only:
  assumes "\<forall>t. ev \<noteq> NewChat t"
  shows "appends_only st (step P st ev)"
proof (cases ev)
  case (Input s)
  then show ?thesis by (simp add: step_def appends_only_same)
next
  case (FileChosen f)
  then show ?thesis by (simp add: step_def handleFileUpload_def appends_only_same split: option.splits)
next
  case (Submit now)
  then show ?thesis by (simp add: step_def sendMessage_appends_only)
next
  case (NewChat t)
  then show ?thesis using assms by simp
next
  case (Settle i network now)
  show ?thesis
  proof (cases "i < length (inflight st)")
    case False
    then show ?thesis using Settle by (simp add: step_def appends_only_same)
  next
    case True
    let ?st1 = "st\<lparr>inflight := take i (inflight st) @ drop (Suc i) (inflight st)\<rparr>"
    have "appends_only st ?st1" by (rule appends_only_same) simp_all
    then have "appends_only st (snd (sendMessage_resume P (inflight st ! i)
        (fetch_result st (inflight st ! i) network) now ?st1))"
      using sendMessage_resume_appends_only by (rule appends_only_trans)
    then show ?thesis using Settle True by (simp add: step_def)
  qed
qed

lemma run_appends_only:
  "\<forall>ev\<in>set evs. \<forall>t. ev \<noteq> NewChat t \<Longrightarrow> appends_only st (run P st evs)"
proof (induction evs arbitrary: st)
  case Nil
  show ?case by (simp add: appends_only_same)
next
  case (Cons ev evs)
  have "appends_only st (step P st ev)" using Cons.prems by (simp add: step_appends_only)
  moreover have "appends_only (step P st ev) (run P (step P st ev) evs)"
    using Cons.prems by (intro Cons.IH) simp
  ultimately show ?case by (simp add: appends_only_trans)
qed

subsection \<open>Creating conversations\<close>

lemma startNewChat_frame:
  "currentChatId (snd (startNewChat P now st)) = ''chat-'' @ decimal now"
  "chats (snd (startNewChat P now st)) =
     (chats st)(''chat-'' @ decimal now \<mapsto> seeded_chat P (''chat-'' @ decimal now) now)"
  "localStorage (snd (startNewChat P now st)) =
     ((localStorage st)(''pdb-ai-chats'' \<mapsto> JSON_stringify P
         ((chats st)(''chat-'' @ decimal now \<mapsto> seeded_chat P (''chat-'' @ decimal now) now))))
       (''currentChatId'' \<mapsto> ''chat-'' @ decimal now)"
proof -
  let ?st2 = "st\<lparr>currentChatId := ''chat-'' @ decimal now,
               chats := (chats st)(''chat-'' @ decimal now \<mapsto> seeded_chat P (''chat-'' @ decimal now) now)\<rparr>"
  obtain r st3 where r: "renderChat P (''chat-'' @ decimal now) (saveAllChats P ?st2) = (r, st3)"
    by (cases "renderChat P (''chat-'' @ decimal now) (saveAllChats P ?st2)")
  have f: "chats st3 = chats ?st2" "currentChatId st3 = currentChatId ?st2"
     "localStorage st3 = localStorage (saveAllChats P ?st2)"
    using renderChat_frame [of P "''chat-'' @ decimal now" "saveAllChats P ?st2"]
      renderChat_localStorage [of P "''chat-'' @ decimal now" "saveAllChats P ?st2"] r
    by (simp_all add: saveAllChats_frame)
  have s: "snd (startNewChat P now st) = (case r of Throw e \<Rightarrow> st3 | Normal \<Rightarrow> resetInput st3)"
    using r by (simp add: startNewChat_def Let_def split: completion.splits)
  show "currentChatId (snd (startNewChat P now st)) = ''chat-'' @ decimal now"
    using f by (simp add: s resetInput_frame split: completion.splits)
  show "chats (snd (startNewChat P now st)) =
     (chats st)(''chat-'' @ decimal now \<mapsto> seeded_chat P (''chat-'' @ decimal now) now)"
    using f by (simp add: s resetInput_frame split: completion.splits)
  show "localStorage (snd (startNewChat P now st)) =
     ((localStorage st)(''pdb-ai-chats'' \<mapsto> JSON_stringify P
         ((chats st)(''chat-'' @ decimal now \<mapsto> seeded_chat P (''chat-'' @ decimal now) now))))
       (''currentChatId'' \<mapsto> ''chat-'' @ decimal now)"
    using f by (simp add: s resetInput_frame saveAllChats_def split: completion.splits)
qed

lemma startNewChat_nonempty:
  "nonempty_chats st \<Longrightarrow> nonempty_chats (snd (startNewChat P now st))"
  by (simp add: nonempty_chats_def startNewChat_frame seeded_chat_def)

lemma step_nonempty: "nonempty_chats st \<Longrightarrow> nonempty_chats (step P st ev)"
proof (cases "\<exists>t. ev = NewChat t")
  case True
  assume "nonempty_chats st"
  then show ?thesis using True by (auto simp add: step_def startNewChat_nonempty)
next
  case False
  assume "nonempty_chats st"
  with False show ?thesis
    using appends_only_nonempty [OF step_appends_only] by simp
qed

lemma run_nonempty: "nonempty_chats st \<Longrightarrow> nonempty_chats (run P st evs)"
  by (induction evs arbitrary: st) (simp_all add: step_nonempty)

lemma initializeChat_keeps:
  assumes "chats st (currentChatId st) \<noteq> None \<or> inherited (currentChatId st)"
  shows "initializeChat P now st = renderChat P (currentChatId st) st"
proof (cases "chats st (currentChatId st)")
  case None
  then have "inherited (currentChatId st)" using assms by simp
  then show ?thesis by (simp add: initializeChat_def)
next
  case (Some c)
  then show ?thesis by (simp add: initializeChat_def)
qed

lemma initializeChat_absent:
  assumes "chats st (currentChatId st) = None" and "\<not> inherited (currentChatId st)"
  shows "chats (snd (initializeChat P now st)) =
           (chats st)(currentChatId st \<mapsto> seeded_chat P (currentChatId st) now)"
  using assms by (simp add: initializeChat_def renderChat_frame saveAllChats_frame)

lemma initializeChat_current:
  "currentChatId (snd (initializeChat P now st)) = currentChatId st"
  "\<not> inherited (currentChatId st) \<Longrightarrow>
     chats (snd (initializeChat P now st)) (currentChatId st) \<noteq> None"
  by (simp_all add: initializeChat_def Let_def renderChat_frame saveAllChats_frame)

lemma initializeChat_idempotent:
  "initializeChat P now' (snd (initializeChat P now st)) = initializeChat P now st"
proof (cases "chats st (currentChatId st) = None \<and> \<not> inherited (currentChatId st)")
  case True
  let ?st1 = "saveAllChats P
                (st\<lparr>chats := (chats st)(currentChatId st \<mapsto> seeded_chat P (currentChatId st) now)\<rparr>)"
  have i: "initializeChat P now st = renderChat P (currentChatId st) ?st1"
    using True by (simp add: initializeChat_def Let_def saveAllChats_frame)
  have "chats (snd (initializeChat P now st)) (currentChatId (snd (initializeChat P now st))) \<noteq> None"
    using True initializeChat_current [where P = P and now = now and st = st] by simp
  then have "initializeChat P now' (snd (initializeChat P now st))
        = renderChat P (currentChatId st) (snd (initializeChat P now st))"
    using initializeChat_keeps [where st = "snd (initializeChat P now st)" and P = P and now = now']
      initializeChat_current(1) [of P now st] by simp
  also have "\<dots> = renderChat P (currentChatId st) ?st1"
    unfolding i by (rule renderChat_again)
  finally show ?thesis using i by simp
next
  case False
  then have k: "chats st (currentChatId st) \<noteq> None \<or> inherited (currentChatId st)" by auto
  have i: "initializeChat P now st = renderChat P (currentChatId st) st"
    using k by (rule initializeChat_keeps)
  have "chats (snd (renderChat P (currentChatId st) st))
          (currentChatId (snd (renderChat P (currentChatId st) st))) \<noteq> None
        \<or> inherited (currentChatId (snd (renderChat P (currentChatId st) st)))"
    using k by (simp add: renderChat_frame)
  then have "initializeChat P now' (snd (renderChat P (currentChatId st) st))
        = renderChat P (currentChatId st) (snd (renderChat P (currentChatId st) st))"
    using initializeChat_keeps [where st = "snd (renderChat P (currentChatId st) st)"
        and P = P and now = now']
    by (simp add: renderChat_frame)
  also have "\<dots> = renderChat P (currentChatId st) st" by (rule renderChat_again)
  finally show ?thesis by (simp add: i)
qed

lemma not_inherited_chat: "\<not> inherited (''chat-'' @ s)"
  by (simp add: inherited_def)

lemma forEach_seeded:
  "forEach_renderMessage P (messages (seeded_chat P i now)) s =
     (Normal, s\<lparr>chatContainer := chatContainer s @
        [Message_node \<lparr>sender = ''ai'', msg_text = Some (JStr greeting), msg_file = None,
                       timestamp = toISOString P now\<rparr>
           (markup P \<lparr>sender = ''ai'', msg_text = Some (JStr greeting), msg_file = None,
                       timestamp = toISOString P now\<rparr>)]\<rparr>)"
  by (simp add: seeded_chat_def renderMessage_def)

lemma init_first_launch:
  assumes "ls ''pdb-ai-chats'' = None" and "\<not> inherited (fst (getCurrentChatId now ls))"
  shows "\<exists>st. init P ls now = Inr st \<and>
           chats st = [currentChatId st \<mapsto> seeded_chat P (currentChatId st) now]"
proof -
  obtain i ls1 where g: "getCurrentChatId now ls = (i, ls1)"
    by (cases "getCurrentChatId now ls")
  have l: "ls1 ''pdb-ai-chats'' = None"
    using g assms(1) by (auto simp add: getCurrentChatId_def split: option.splits if_splits)
  have n: "\<not> inherited i" using assms(2) g by simp
  show ?thesis
    using g l n
    by (simp add: init_def loadAllChats_def initializeChat_def Let_def
        saveAllChats_def renderChat_def forEach_seeded)
qed

lemma step_keeps_current:
  assumes "chats st (currentChatId st) \<noteq> None"
  shows "chats (step P st ev) (currentChatId (step P st ev)) \<noteq> None"
proof (cases "\<exists>t. ev = NewChat t")
  case True
  then show ?thesis by (auto simp add: step_def startNewChat_frame)
next
  case False
  then have a: "appends_only st (step P st ev)" by (simp add: step_appends_only)
  from assms obtain c where c: "chats st (currentChatId st) = Some c" by auto
  from appends_only_prefix [OF a c] a show ?thesis by (auto simp add: appends_only_def)
qed

lemma run_keeps_current:
  "chats st (currentChatId st) \<noteq> None \<Longrightarrow>
     chats (run P st evs) (currentChatId (run P st evs)) \<noteq> None"
proof (induction evs arbitrary: st)
  case Nil
  then show ?case by simp
next
  case (Cons ev evs)
  from Cons.prems have "chats (step P st ev) (currentChatId (step P st ev)) \<noteq> None"
    by (rule step_keeps_current)
  then show ?case using Cons.IH [of "step P st ev"] by simp
qed

lemma init_current:
  assumes "init P ls now = Inr st" and "\<not> inherited (currentChatId st)"
  shows "chats st (currentChatId st) \<noteq> None"
proof -
  obtain i ls1 where g: "getCurrentChatId now ls = (i, ls1)"
    by (cases "getCurrentChatId now ls")
  obtain cs where l: "loadAllChats P ls1 = Inr cs"
    using assms(1) g by (cases "loadAllChats P ls1") (simp_all add: init_def)
  let ?s = "\<lparr>isRecording = False, currentFile = None, currentChatId = i, chats = cs,
             abortController = 0, aborted = {}, promptInput = [], uploadActive = False,
             chatContainer = [], localStorage = ls1, console = [], inflight = []\<rparr>"
  have e: "snd (initializeChat P now ?s) = st"
    using assms(1) g l by (simp add: init_def split: prod.splits completion.splits)
  then have i: "currentChatId st = i" using initializeChat_current(1) [of P now ?s] by auto
  then have "\<not> inherited (currentChatId ?s)" using assms(2) by simp
  then have "chats (snd (initializeChat P now ?s)) (currentChatId ?s) \<noteq> None"
    by (rule initializeChat_current(2))
  then show ?thesis unfolding e i by simp
qed

lemma greeting_no_markup: "greeting \<noteq> ''<i id=typing-1001></i>''"
  by (simp add: greeting_def)

lemma init_example: "init example_platform Map.empty 1000 = Inr example_state"
  by (simp add: init_def getCurrentChatId_def loadAllChats_def initializeChat_def inherited_def
      saveAllChats_def renderChat_def renderMessage_def seeded_chat_def example_state_def
      example_chat_def example_platform_def decimal_1000 fun_upd_twist greeting_no_markup)

lemma aborted_call_is_caught:
  assumes "i < length (inflight st)"
    and "signal (inflight st ! i) \<in> aborted st"
    and "chats st (currentChatId st) = Some c"
  shows "chats (step P st (Settle i network now)) =
           (chats st)(currentChatId st \<mapsto>
              c\<lparr>messages := messages c @
                   [\<lparr>sender = ''ai'', msg_text = Some (JStr apology), msg_file = None,
                     timestamp = toISOString P now\<rparr>],
                updatedAt := toISOString P now\<rparr>)"
proof -
  let ?st1 = "st\<lparr>inflight := take i (inflight st) @ drop (Suc i) (inflight st)\<rparr>"
  have c1: "chats ?st1 (currentChatId ?st1) = Some c" using assms(3) by simp
  have "getAIResponse (fetch_result st (inflight st ! i) network) = Inl AbortError"
    using assms(2) by (simp add: fetch_result_def getAIResponse_def)
  then have "sendMessage_resume P (inflight st ! i) (fetch_result st (inflight st ! i) network) now ?st1
             = catch_block P (typingId (inflight st ! i)) AbortError now ?st1"
    by (simp add: sendMessage_resume_def)
  then show ?thesis
    using assms(1) by (simp add: step_def catch_block_appends [OF c1])
qed

lemmas run_defs = step_def sendMessage_def sendMessage_resume_def getAIResponse_def reply_text_def
  addMessage_def saveAllChats_def renderMessage_def removeTypingIndicator_def catch_block_def
  showTypingIndicator_def fetch_result_def res_ok_def buildPrompt_def prompt_line_def
  trim_def is_space_def Let_def startNewChat_def renderChat_def resetInput_def seeded_chat_def
  apology_def

lemmas example_defs = example_state_def example_chat_def example_platform_def
  greeting_no_markup

subsection \<open>Superseded calls\<close>

text \<open>
  C1. The claim is that the result of a call which a newer submit has superseded changes
  nothing. The script does abort the superseded \<^verbatim>\<open>fetch\<close>, but the rejection that the abort
  causes lands in the \<^verbatim>\<open>catch\<close> block of \<^verbatim>\<open>sendMessage\<close>, which treats it as any other failure
  and appends the apology to the current conversation. On the first launch: \<^verbatim>\<open>first\<close> is
  sent, then \<^verbatim>\<open>second\<close> while the first call is still pending, so that the call at
  position 0 carries an aborted signal; when that call ends, whatever the network
  delivered for it, the conversation has a fourth message, the apology, and the
  AbortError has gone to the console. The reply to \<^verbatim>\<open>second\<close> is appended after it. When
  the pending call is superseded by the new-chat button instead, its apology is appended
  to the new conversation.
\<close>

theorem stale_call_appends_apology:
  "map signal (inflight (run example_platform example_state
      [Input ''first'', Submit 1001, Input ''second'', Submit 1002])) = [1, 2]
   \<and> aborted (run example_platform example_state
      [Input ''first'', Submit 1001, Input ''second'', Submit 1002]) = {0, 1}
   \<and> map msg_text (messages (the (chats
        (run example_platform example_state
           [Input ''first'', Submit 1001, Input ''second'', Submit 1002])
        ''chat-1000'')))
     = [Some (JStr greeting), Some (JStr ''first''), Some (JStr ''second'')]
   \<and> map msg_text (messages (the (chats
        (run example_platform example_state
           [Input ''first'', Submit 1001, Input ''second'', Submit 1002,
            Settle 0 (Response 200 (Inr (example_reply ''late answer''))) 1003])
        ''chat-1000'')))
     = [Some (JStr greeting), Some (JStr ''first''), Some (JStr ''second''),
        Some (JStr ''Sorry, I encountered an error. Please try again.'')]
   \<and> console (run example_platform example_state
           [Input ''first'', Submit 1001, Input ''second'', Submit 1002,
            Settle 0 (Response 200 (Inr (example_reply ''late answer''))) 1003])
     = [AbortError]
   \<and> map msg_text (messages (the (chats
        (run example_platform example_state
           [Input ''first'', Submit 1001, Input ''second'', Submit 1002,
            Settle 0 (Response 200 (Inr (example_reply ''late answer''))) 1003,
            Settle 0 (Response 200 (Inr (example_reply ''answer''))) 1004])
        ''chat-1000'')))
     = [Some (JStr greeting), Some (JStr ''first''), Some (JStr ''second''),
        Some (JStr ''Sorry, I encountered an error. Please try again.''),
        Some (JStr ''answer'')]
   \<and> map msg_text (messages (the (chats
        (run example_platform example_state
           [Input ''first'', Submit 1001, NewChat 1002,
            Settle 0 (Response 200 (Inr (example_reply ''late answer''))) 1003])
        ''chat-1002'')))
     = [Some (JStr greeting),
        Some (JStr ''Sorry, I encountered an error. Please try again.'')]"
  by (simp add: run_defs example_defs example_reply_def insert_commute decimal.simps digit_char_def)

subsection \<open>Messages are only appended\<close>

text \<open>
  C2. Over any sequence of events that does not start a new conversation (texts put into
  the input field, files chosen, submits, and calls coming to their end), every
  conversation that exists keeps its messages: what it held before is a prefix of what it
  holds after, so nothing is edited, removed or reordered. A submit that is not a no-op,
  made while the current conversation exists, makes that conversation strictly longer.
\<close>

theorem messages_append_only:
  "((\<forall>ev\<in>set evs. \<forall>t. ev \<noteq> NewChat t) \<longrightarrow> chats st i = Some c \<longrightarrow>
      (\<exists>c'. chats (run P st evs) i = Some c' \<and> prefix (messages c) (messages c')))
   \<and> (chats st (currentChatId st) = Some c \<longrightarrow>
       \<not> (trim (promptInput st) = [] \<and> currentFile st = None) \<longrightarrow>
      (\<exists>c'. chats (step P st (Submit now)) (currentChatId st) = Some c' \<and>
            strict_prefix (messages c) (messages c') \<and>
            length (messages c) < length (messages c')))"
proof (intro conjI impI)
  assume "\<forall>ev\<in>set evs. \<forall>t. ev \<noteq> NewChat t" and "chats st i = Some c"
  then show "\<exists>c'. chats (run P st evs) i = Some c' \<and> prefix (messages c) (messages c')"
    using appends_only_prefix [OF run_appends_only] by simp
next
  assume c: "chats st (currentChatId st) = Some c"
    and nn: "\<not> (trim (promptInput st) = [] \<and> currentFile st = None)"
  from sendMessage_grows_strictly [OF c nn, of P now]
  obtain c' where 1: "chats (snd (sendMessage P now st)) (currentChatId st) = Some c'"
    and 2: "prefix (messages c @
             [\<lparr>sender = ''user'', msg_text = Some (JStr (trim (promptInput st))),
               msg_file = Some (currentFile st), timestamp = toISOString P now\<rparr>]) (messages c')"
    by blast
  from 2 obtain zs where z: "messages c' = (messages c @
             [\<lparr>sender = ''user'', msg_text = Some (JStr (trim (promptInput st))),
               msg_file = Some (currentFile st), timestamp = toISOString P now\<rparr>]) @ zs"
    by (rule prefixE)
  have "strict_prefix (messages c) (messages c')"
    unfolding z by (simp add: strict_prefix_def)
  moreover have "length (messages c) < length (messages c')"
    unfolding z by simp
  ultimately show "\<exists>c'. chats (step P st (Submit now)) (currentChatId st) = Some c' \<and>
            strict_prefix (messages c) (messages c') \<and>
            length (messages c) < length (messages c')"
    using 1 by (simp add: step_def)
qed

theorem messages_append_only_witness:
  "list_all (\<lambda>ev. \<forall>t. ev \<noteq> NewChat t)
      [Input ''hi'', Submit 1001, Settle 0 (Rejected TypeError) 1002]
   \<and> chats example_state ''chat-1000'' = Some example_chat
   \<and> prefix (messages example_chat)
        (messages (the (chats (run example_platform example_state
           [Input ''hi'', Submit 1001, Settle 0 (Rejected TypeError) 1002]) ''chat-1000'')))
   \<and> chats (example_state\<lparr>promptInput := ''hi''\<rparr>)
        (currentChatId (example_state\<lparr>promptInput := ''hi''\<rparr>)) = Some example_chat
   \<and> \<not> (trim (promptInput (example_state\<lparr>promptInput := ''hi''\<rparr>)) = []
          \<and> currentFile (example_state\<lparr>promptInput := ''hi''\<rparr>) = None)
   \<and> length (messages example_chat)
       < length (messages (the (chats
           (step example_platform (example_state\<lparr>promptInput := ''hi''\<rparr>) (Submit 1001))
           (currentChatId (example_state\<lparr>promptInput := ''hi''\<rparr>)))))"
proof -
  have h1: "\<forall>ev\<in>set [Input ''hi'', Submit 1001, Settle 0 (Rejected TypeError) 1002].
              \<forall>t. ev \<noteq> NewChat t" by simp
  have h2: "chats example_state ''chat-1000'' = Some example_chat"
    by (simp add: example_state_def)
  have h3: "chats (example_state\<lparr>promptInput := ''hi''\<rparr>)
        (currentChatId (example_state\<lparr>promptInput := ''hi''\<rparr>)) = Some example_chat"
    by (simp add: example_state_def)
  have h4: "\<not> (trim (promptInput (example_state\<lparr>promptInput := ''hi''\<rparr>)) = []
          \<and> currentFile (example_state\<lparr>promptInput := ''hi''\<rparr>) = None)"
    by (simp add: trim_def is_space_def)
  note T = messages_append_only [where P = example_platform and now = 1001
      and c = example_chat and i = "''chat-1000''"]
  from T [where evs = "[Input ''hi'', Submit 1001, Settle 0 (Rejected TypeError) 1002]"
      and st = example_state, THEN conjunct1] h1 h2
  have a: "prefix (messages example_chat)
        (messages (the (chats (run example_platform example_state
           [Input ''hi'', Submit 1001, Settle 0 (Rejected TypeError) 1002]) ''chat-1000'')))"
    by auto
  from T [where evs = "[]" and st = "example_state\<lparr>promptInput := ''hi''\<rparr>",
      THEN conjunct2] h3 h4
  have b: "length (messages example_chat)
       < length (messages (the (chats
           (step example_platform (example_state\<lparr>promptInput := ''hi''\<rparr>) (Submit 1001))
           (currentChatId (example_state\<lparr>promptInput := ''hi''\<rparr>)))))"
    by auto
  show ?thesis using h2 h3 h4 a b by simp
qed

subsection \<open>A call that fails\<close>





subsection \<open>The prompt and the call\<close>

lemma sendMessage_calls_once:
  assumes c: "chats st (currentChatId st) = Some c"
    and s: "\<forall>m\<in>set (messages c). convertible (msg_text m)"
    and n: "\<not> (trim (promptInput st) = [] \<and> currentFile st = None)"
  shows "\<exists>st'. sendMessage P now st = (Normal, st') \<and>
           inflight st' = inflight st @
             [\<lparr>signal = Suc (abortController st), typingId = ''typing-'' @ decimal now,
               prompt = prompt_spec (messages c @
                 [\<lparr>sender = ''user'', msg_text = Some (JStr (trim (promptInput st))),
                   msg_file = Some (currentFile st), timestamp = toISOString P now\<rparr>])\<rparr>]"
proof -
  from n have n': "(trim (promptInput st) = [] \<and> currentFile st = None) = False" by simp
  let ?st1 = "st\<lparr>aborted := insert (abortController st) (aborted st),
                     abortController := Suc (abortController st)\<rparr>"
  let ?u = "\<lparr>sender = ''user'', msg_text = Some (JStr (trim (promptInput st))),
                   msg_file = Some (currentFile st), timestamp = toISOString P now\<rparr>"
  have c1: "chats ?st1 (currentChatId ?st1) = Some c" using c by simp
  have a: "addMessage P ?u now ?st1 = (Normal,
      ?st1\<lparr>chats := (chats ?st1)(currentChatId ?st1 \<mapsto>
                c\<lparr>messages := messages c @ [?u], updatedAt := toISOString P now\<rparr>),
         localStorage :=
           ((localStorage ?st1)(''pdb-ai-chats'' \<mapsto> JSON_stringify P ((chats ?st1)(currentChatId ?st1 \<mapsto>
                c\<lparr>messages := messages c @ [?u], updatedAt := toISOString P now\<rparr>))))
             (''currentChatId'' \<mapsto> currentChatId ?st1),
         chatContainer := chatContainer ?st1 @ [Message_node ?u (markup P ?u)]\<rparr>)"
    by (rule addMessage_renders [OF c1]) simp
  have b: "buildPrompt (messages c @ [?u]) = Inr (prompt_spec (messages c @ [?u]))"
    by (rule buildPrompt_convertible) (use s in \<open>auto simp add: convertible_string\<close>)
  show ?thesis
    unfolding sendMessage_def Let_def n'
    by (simp add: a showTypingIndicator_def b)
qed

lemma sendMessage_resume_inflight:
  "inflight (snd (sendMessage_resume P call outcome now st)) = inflight st"
proof (cases "getAIResponse outcome")
  case (Inl err)
  then show ?thesis by (simp add: sendMessage_resume_def catch_block_frame)
next
  case (Inr v)
  let ?m = "\<lparr>sender = ''ai'', msg_text = v, msg_file = None, timestamp = toISOString P now\<rparr>"
  let ?st1 = "removeTypingIndicator (typingId call) st"
  have i: "inflight (snd (addMessage P ?m now ?st1)) = inflight st"
    by (simp add: addMessage_frame removeTypingIndicator_def)
  show ?thesis
  proof (cases "addMessage P ?m now ?st1")
    case (Pair r st')
    then show ?thesis using Inr i
      by (cases r) (simp_all add: sendMessage_resume_def catch_block_frame)
  qed
qed

text \<open>
  C4, as the code has it. For messages whose texts can be converted to strings, as the
  template literal converts them (every string, and a missing text, can), \<^verbatim>\<open>buildPrompt\<close>
  returns the prompt of the specification: one line \<^verbatim>\<open><sender>: <text>\<close> per message, every
  message, in order, joined by newlines; being a function of the messages alone it is
  deterministic. For the messages \<^verbatim>\<open>ai: "Hello!"\<close>, \<^verbatim>\<open>user: "What is 2+2?"\<close> the prompt is
  the two lines \<^verbatim>\<open>ai: Hello!\<close> and \<^verbatim>\<open>user: What is 2+2?\<close>. A submit that is not a no-op,
  made while the current conversation exists and holds such messages, makes exactly one
  call: one entry is added to the calls in flight, with the prompt of the conversation
  including the new user message, and the continuation of a call makes none.
\<close>

theorem buildPrompt_is_prompt_spec:
  "((\<forall>m\<in>set ms. convertible (msg_text m)) \<longrightarrow> buildPrompt ms = Inr (prompt_spec ms))
   \<and> buildPrompt
        [\<lparr>sender = ''ai'', msg_text = Some (JStr ''Hello!''), msg_file = None, timestamp = t1\<rparr>,
         \<lparr>sender = ''user'', msg_text = Some (JStr ''What is 2+2?''), msg_file = None,
          timestamp = t2\<rparr>]
       = Inr (''ai: Hello!'' @ [CHR 0x0A] @ ''user: What is 2+2?'')
   \<and> (chats st (currentChatId st) = Some c \<longrightarrow>
       (\<forall>m\<in>set (messages c). convertible (msg_text m)) \<longrightarrow>
       \<not> (trim (promptInput st) = [] \<and> currentFile st = None) \<longrightarrow>
         (\<exists>st'. sendMessage P now st = (Normal, st') \<and>
            inflight st' = inflight st @
              [\<lparr>signal = Suc (abortController st), typingId = ''typing-'' @ decimal now,
                prompt = prompt_spec (messages c @
                  [\<lparr>sender = ''user'', msg_text = Some (JStr (trim (promptInput st))),
                    msg_file = Some (currentFile st), timestamp = toISOString P now\<rparr>])\<rparr>]))
   \<and> inflight (snd (sendMessage_resume P call outcome now st)) = inflight st
   \<and> (msg_text m = Some (JStr s) \<longrightarrow> convertible (msg_text m) \<and> text_of m = s)
   \<and> (msg_text m = None \<longrightarrow> convertible (msg_text m) \<and> text_of m = ''undefined'')"
proof (intro conjI impI)
  assume "\<forall>m\<in>set ms. convertible (msg_text m)"
  then show "buildPrompt ms = Inr (prompt_spec ms)" by (rule buildPrompt_convertible)
next
  show "buildPrompt
        [\<lparr>sender = ''ai'', msg_text = Some (JStr ''Hello!''), msg_file = None, timestamp = t1\<rparr>,
         \<lparr>sender = ''user'', msg_text = Some (JStr ''What is 2+2?''), msg_file = None,
          timestamp = t2\<rparr>]
       = Inr (''ai: Hello!'' @ [CHR 0x0A] @ ''user: What is 2+2?'')"
    by (simp add: buildPrompt_def prompt_line_def)
next
  assume "chats st (currentChatId st) = Some c"
    and "\<forall>m\<in>set (messages c). convertible (msg_text m)"
    and "\<not> (trim (promptInput st) = [] \<and> currentFile st = None)"
  then show "\<exists>st'. sendMessage P now st = (Normal, st') \<and>
            inflight st' = inflight st @
              [\<lparr>signal = Suc (abortController st), typingId = ''typing-'' @ decimal now,
                prompt = prompt_spec (messages c @
                  [\<lparr>sender = ''user'', msg_text = Some (JStr (trim (promptInput st))),
                    msg_file = Some (currentFile st), timestamp = toISOString P now\<rparr>])\<rparr>]"
    by (rule sendMessage_calls_once)
next
  show "inflight (snd (sendMessage_resume P call outcome now st)) = inflight st"
    by (rule sendMessage_resume_inflight)
next
  assume "msg_text m = Some (JStr s)"
  then show "convertible (msg_text m)" and "text_of m = s"
    by (simp_all add: convertible_def text_of_def)
next
  assume "msg_text m = None"
  then show "convertible (msg_text m)" and "text_of m = ''undefined''"
    by (simp_all add: convertible_def text_of_def)
qed

text \<open>
  The endpoint answers \<^verbatim>\<open>hi\<close> with a reply whose text is the object \<^verbatim>\<open>{"toString": null}\<close>.
  The reply is stored (and the apology after it, because rendering it throws). A prompt
  cannot be built from the conversation any more: the next submit, \<^verbatim>\<open>again\<close>, is not a
  no-op and makes no call.
\<close>

theorem buildPrompt_counterexample:
  "buildPrompt
      [\<lparr>sender = ''ai'', msg_text = Some (JObj [(''toString'', JNull)]), msg_file = None,
        timestamp = ''1002''\<rparr>] = Inl TypeError
   \<and> map msg_text (messages (the (chats
        (run example_platform example_state
           [Input ''hi'', Submit 1001,
            Settle 0 (Response 200 (Inr (example_reply_with (JObj [(''toString'', JNull)])))) 1002])
        ''chat-1000'')))
     = [Some (JStr greeting), Some (JStr ''hi''), Some (JObj [(''toString'', JNull)]),
        Some (JStr ''Sorry, I encountered an error. Please try again.'')]
   \<and> inflight (run example_platform example_state
           [Input ''hi'', Submit 1001,
            Settle 0 (Response 200 (Inr (example_reply_with (JObj [(''toString'', JNull)])))) 1002])
     = []
   \<and> trim (promptInput (run example_platform example_state
           [Input ''hi'', Submit 1001,
            Settle 0 (Response 200 (Inr (example_reply_with (JObj [(''toString'', JNull)])))) 1002,
            Input ''again''])) = ''again''
   \<and> inflight (run example_platform example_state
           [Input ''hi'', Submit 1001,
            Settle 0 (Response 200 (Inr (example_reply_with (JObj [(''toString'', JNull)])))) 1002,
            Input ''again'', Submit 1003])
     = []"
  by (simp add: run_defs example_defs example_reply_with_def)

theorem buildPrompt_is_prompt_spec_witness:
  "list_all (\<lambda>m. convertible (msg_text m)) (messages example_chat)
   \<and> buildPrompt (messages example_chat) = Inr (''ai: '' @ greeting)
   \<and> chats (example_state\<lparr>promptInput := ''What is 2+2?''\<rparr>)
        (currentChatId (example_state\<lparr>promptInput := ''What is 2+2?''\<rparr>)) = Some example_chat
   \<and> \<not> (trim (promptInput (example_state\<lparr>promptInput := ''What is 2+2?''\<rparr>)) = []
          \<and> currentFile (example_state\<lparr>promptInput := ''What is 2+2?''\<rparr>) = None)
   \<and> map prompt (inflight (snd (sendMessage example_platform 1001
          (example_state\<lparr>promptInput := ''What is 2+2?''\<rparr>))))
       = [''ai: '' @ greeting @ [CHR 0x0A] @ ''user: What is 2+2?'']
   \<and> msg_text (hd (messages example_chat)) = Some (JStr greeting)
   \<and> text_of (hd (messages example_chat)) = greeting"
proof -
  let ?st = "example_state\<lparr>promptInput := ''What is 2+2?''\<rparr>"
  note T = buildPrompt_is_prompt_spec [where ms = "messages example_chat" and st = ?st
      and c = example_chat and P = example_platform and now = 1001
      and m = "hd (messages example_chat)" and s = greeting]
  have h1: "\<forall>m\<in>set (messages example_chat). convertible (msg_text m)"
    by (simp add: example_chat_def convertible_def)
  have h2: "chats ?st (currentChatId ?st) = Some example_chat"
    by (simp add: example_state_def)
  have h3: "\<not> (trim (promptInput ?st) = [] \<and> currentFile ?st = None)"
    by (simp add: trim_def is_space_def)
  have h4: "msg_text (hd (messages example_chat)) = Some (JStr greeting)"
    by (simp add: example_chat_def)
  have t: "trim (promptInput ?st) = ''What is 2+2?''"
    by (simp add: trim_def is_space_def)
  from T h1
  have a: "buildPrompt (messages example_chat) = Inr (prompt_spec (messages example_chat))"
    by blast
  from T h4 have g: "text_of (hd (messages example_chat)) = greeting" by blast
  from T h1 h2 h3
  obtain st' where r: "sendMessage example_platform 1001 ?st = (Normal, st')"
    and i: "inflight st' = inflight ?st @
              [\<lparr>signal = Suc (abortController ?st), typingId = ''typing-'' @ decimal 1001,
                prompt = prompt_spec (messages example_chat @
                  [\<lparr>sender = ''user'', msg_text = Some (JStr (trim (promptInput ?st))),
                    msg_file = Some (currentFile ?st), timestamp = toISOString example_platform 1001\<rparr>])\<rparr>]"
    by blast
  have p1: "prompt_spec (messages example_chat) = ''ai: '' @ greeting"
    by (simp add: prompt_spec_def example_chat_def text_of_def butlast_append)
  have p2: "prompt_spec (messages example_chat @
                  [\<lparr>sender = ''user'', msg_text = Some (JStr ''What is 2+2?''),
                    msg_file = Some (currentFile ?st), timestamp = toISOString example_platform 1001\<rparr>])
            = ''ai: '' @ greeting @ [CHR 0x0A] @ ''user: What is 2+2?''"
    by (simp add: prompt_spec_def example_chat_def text_of_def butlast_append)
  have i': "inflight ?st = []" by (simp add: example_state_def)
  have j: "map prompt (inflight st') = [''ai: '' @ greeting @ [CHR 0x0A] @ ''user: What is 2+2?'']"
    unfolding i t p2 i' by simp
  show ?thesis
    unfolding r using h1 h2 h3 h4 a g
    by (simp add: j p1 list_all_iff)
qed

subsection \<open>Empty submits\<close>

text \<open>
  C5. When the input field holds only white space (or nothing) and no file is attached,
  \<^verbatim>\<open>sendMessage\<close> returns at once: the state after it is the state before it, so no
  message has been appended, \<^verbatim>\<open>localStorage\<close> has not been written and no call of \<^verbatim>\<open>fetch\<close>
  has been made.
\<close>

theorem sendMessage_noop:
  "(\<forall>c\<in>set (promptInput st). is_space c) \<Longrightarrow> currentFile st = None \<Longrightarrow>
     sendMessage P now st = (Normal, st) \<and> step P st (Submit now) = st"
  by (simp add: sendMessage_def step_def trim_Nil_iff)

theorem sendMessage_noop_witness:
  "list_all is_space (promptInput (example_state\<lparr>promptInput := [CHR 0x20, CHR 0x09, CHR 0x0A]\<rparr>))
   \<and> currentFile (example_state\<lparr>promptInput := [CHR 0x20, CHR 0x09, CHR 0x0A]\<rparr>) = None
   \<and> sendMessage example_platform 1001 (example_state\<lparr>promptInput := [CHR 0x20, CHR 0x09, CHR 0x0A]\<rparr>)
       = (Normal, example_state\<lparr>promptInput := [CHR 0x20, CHR 0x09, CHR 0x0A]\<rparr>)
   \<and> step example_platform (example_state\<lparr>promptInput := [CHR 0x20, CHR 0x09, CHR 0x0A]\<rparr>) (Submit 1001)
       = example_state\<lparr>promptInput := [CHR 0x20, CHR 0x09, CHR 0x0A]\<rparr>"
proof -
  have h1: "\<forall>c\<in>set (promptInput (example_state\<lparr>promptInput := [CHR 0x20, CHR 0x09, CHR 0x0A]\<rparr>)). is_space c"
    by (simp add: is_space_def)
  have h2: "currentFile (example_state\<lparr>promptInput := [CHR 0x20, CHR 0x09, CHR 0x0A]\<rparr>) = None"
    by (simp add: example_state_def)
  show ?thesis
    using h1 h2 sendMessage_noop [OF h1 h2, of example_platform 1001]
    by (simp add: list_all_iff)
qed

subsection \<open>Conversations are never empty\<close>

text \<open>
  C6. A conversation that the script creates holds exactly one message, the greeting sent
  by \<^verbatim>\<open>ai\<close>: the one \<^verbatim>\<open>initializeChat\<close> creates when \<^verbatim>\<open>chats[currentChatId]\<close> is \<^verbatim>\<open>undefined\<close>
  (the id has no conversation and is not a name that \<^verbatim>\<open>Object.prototype\<close> has; an id the
  script makes itself, \<^verbatim>\<open>chat-\<close> and digits, never is), as on a launch with no mapping
  stored, and the one \<^verbatim>\<open>startNewChat\<close> creates. Under an inherited name
  \<^verbatim>\<open>initializeChat\<close> creates nothing. No event empties a conversation: when every
  conversation has a message, so has every conversation after any sequence of events.
  \<^verbatim>\<open>initializeChat\<close> leaves the mapping and the store as they are when the conversation
  exists, and running it a second time gives what the first run gave.
\<close>

theorem conversations_never_empty:
  "(nonempty_chats st \<longrightarrow> nonempty_chats (run P st evs))
   \<and> (ls ''pdb-ai-chats'' = None \<longrightarrow> \<not> inherited (fst (getCurrentChatId now ls)) \<longrightarrow>
        (\<exists>st0. init P ls now = Inr st0 \<and>
           chats st0 = [currentChatId st0 \<mapsto> seeded_chat P (currentChatId st0) now] \<and>
           nonempty_chats (run P st0 evs)))
   \<and> \<not> inherited (''chat-'' @ decimal now)
   \<and> (chats st (currentChatId st) = None \<longrightarrow> \<not> inherited (currentChatId st) \<longrightarrow>
        chats (snd (initializeChat P now st)) =
          (chats st)(currentChatId st \<mapsto> seeded_chat P (currentChatId st) now))
   \<and> (chats st (currentChatId st) = None \<longrightarrow> inherited (currentChatId st) \<longrightarrow>
        chats (snd (initializeChat P now st)) = chats st)
   \<and> chats (snd (startNewChat P now st)) (currentChatId (snd (startNewChat P now st)))
       = Some (seeded_chat P (currentChatId (snd (startNewChat P now st))) now)
   \<and> messages (seeded_chat P i now)
       = [\<lparr>sender = ''ai'', msg_text = Some (JStr greeting), msg_file = None,
           timestamp = toISOString P now\<rparr>]
   \<and> (chats st (currentChatId st) \<noteq> None \<longrightarrow>
        chats (snd (initializeChat P now st)) = chats st \<and>
        localStorage (snd (initializeChat P now st)) = localStorage st)
   \<and> initializeChat P now' (snd (initializeChat P now st)) = initializeChat P now st"
proof (intro conjI impI)
  assume "nonempty_chats st"
  then show "nonempty_chats (run P st evs)" by (rule run_nonempty)
next
  assume l: "ls ''pdb-ai-chats'' = None"
    and n: "\<not> inherited (fst (getCurrentChatId now ls))"
  from init_first_launch [where ls = ls and P = P and now = now] l n
  obtain st0 where 1: "init P ls now = Inr st0"
    and 2: "chats st0 = [currentChatId st0 \<mapsto> seeded_chat P (currentChatId st0) now]"
    by blast
  from 2 have "nonempty_chats st0"
    by (simp add: nonempty_chats_def seeded_chat_def)
  then have "nonempty_chats (run P st0 evs)" by (rule run_nonempty)
  with 1 2 show "\<exists>st0. init P ls now = Inr st0 \<and>
           chats st0 = [currentChatId st0 \<mapsto> seeded_chat P (currentChatId st0) now] \<and>
           nonempty_chats (run P st0 evs)"
    by blast
next
  show "\<not> inherited (''chat-'' @ decimal now)" by (rule not_inherited_chat)
next
  assume "chats st (currentChatId st) = None" and "\<not> inherited (currentChatId st)"
  then show "chats (snd (initializeChat P now st)) =
          (chats st)(currentChatId st \<mapsto> seeded_chat P (currentChatId st) now)"
    by (rule initializeChat_absent)
next
  assume "inherited (currentChatId st)"
  then show "chats (snd (initializeChat P now st)) = chats st"
    by (simp add: initializeChat_keeps renderChat_frame)
next
  show "chats (snd (startNewChat P now st)) (currentChatId (snd (startNewChat P now st)))
       = Some (seeded_chat P (currentChatId (snd (startNewChat P now st))) now)"
    by (simp add: startNewChat_frame)
next
  show "messages (seeded_chat P i now)
       = [\<lparr>sender = ''ai'', msg_text = Some (JStr greeting), msg_file = None,
           timestamp = toISOString P now\<rparr>]"
    by (simp add: seeded_chat_def)
next
  assume a: "chats st (currentChatId st) \<noteq> None"
  show "chats (snd (initializeChat P now st)) = chats st"
    using a by (simp add: initializeChat_keeps renderChat_frame)
  show "localStorage (snd (initializeChat P now st)) = localStorage st"
    using a by (simp add: initializeChat_keeps renderChat_localStorage)
next
  show "initializeChat P now' (snd (initializeChat P now st)) = initializeChat P now st"
    by (rule initializeChat_idempotent)
qed

theorem conversations_never_empty_witness:
  "nonempty_chats example_state
   \<and> nonempty_chats (run example_platform example_state
        [Input ''hi'', Submit 1001, NewChat 1002, Settle 0 (Rejected AbortError) 1003])
   \<and> (Map.empty :: string \<rightharpoonup> string) ''pdb-ai-chats'' = None
   \<and> \<not> inherited (fst (getCurrentChatId 1000 Map.empty))
   \<and> init example_platform Map.empty 1000 = Inr example_state
   \<and> chats example_state (currentChatId example_state) \<noteq> None
   \<and> chats (snd (initializeChat example_platform 1005 example_state)) = chats example_state
   \<and> chats (example_state\<lparr>currentChatId := ''chat-7''\<rparr>)
        (currentChatId (example_state\<lparr>currentChatId := ''chat-7''\<rparr>)) = None
   \<and> \<not> inherited (currentChatId (example_state\<lparr>currentChatId := ''chat-7''\<rparr>))
   \<and> map_option messages
        (chats (snd (initializeChat example_platform 1005
           (example_state\<lparr>currentChatId := ''chat-7''\<rparr>))) ''chat-7'')
       = Some [\<lparr>sender = ''ai'', msg_text = Some (JStr greeting), msg_file = None,
                timestamp = ''1005''\<rparr>]
   \<and> chats (example_state\<lparr>currentChatId := ''toString''\<rparr>)
        (currentChatId (example_state\<lparr>currentChatId := ''toString''\<rparr>)) = None
   \<and> inherited (currentChatId (example_state\<lparr>currentChatId := ''toString''\<rparr>))
   \<and> chats (snd (initializeChat example_platform 1005
           (example_state\<lparr>currentChatId := ''toString''\<rparr>))) ''toString'' = None"
proof -
  let ?evs = "[Input ''hi'', Submit 1001, NewChat 1002, Settle 0 (Rejected AbortError) 1003]"
  let ?st7 = "example_state\<lparr>currentChatId := ''chat-7''\<rparr>"
  let ?stT = "example_state\<lparr>currentChatId := ''toString''\<rparr>"
  note T = conversations_never_empty [where P = example_platform and evs = ?evs
      and ls = Map.empty and now = 1005]
  have h1: "nonempty_chats example_state"
    by (simp add: nonempty_chats_def example_state_def example_chat_def)
  have h2: "chats example_state (currentChatId example_state) \<noteq> None"
    by (simp add: example_state_def)
  have h3: "chats ?st7 (currentChatId ?st7) = None"
    by (simp add: example_state_def)
  have h4: "\<not> inherited (currentChatId ?st7)" by (simp add: inherited_def)
  have h5: "chats ?stT (currentChatId ?stT) = None"
    by (simp add: example_state_def)
  have h6: "inherited (currentChatId ?stT)" by (simp add: inherited_def)
  have h7: "\<not> inherited (fst (getCurrentChatId 1000 Map.empty))"
    by (simp add: getCurrentChatId_def inherited_def)
  have d: "decimal 1005 = ''1005''" by (simp add: decimal.simps digit_char_def)
  from T [where st = example_state] h1
  have a: "nonempty_chats (run example_platform example_state ?evs)" by blast
  from T [where st = example_state] h2
  have b: "chats (snd (initializeChat example_platform 1005 example_state)) = chats example_state"
    by blast
  from T [where st = ?st7] h3 h4
  have c: "chats (snd (initializeChat example_platform 1005 ?st7)) =
          (chats ?st7)(currentChatId ?st7 \<mapsto> seeded_chat example_platform (currentChatId ?st7) 1005)"
    by blast
  have c': "map_option messages (chats (snd (initializeChat example_platform 1005 ?st7)) ''chat-7'')
       = Some [\<lparr>sender = ''ai'', msg_text = Some (JStr greeting), msg_file = None,
                timestamp = ''1005''\<rparr>]"
    unfolding c by (simp add: seeded_chat_def example_platform_def d)
  from T [where st = ?stT] h5 h6
  have e: "chats (snd (initializeChat example_platform 1005 ?stT)) = chats ?stT" by blast
  have e': "chats (snd (initializeChat example_platform 1005 ?stT)) ''toString'' = None"
    unfolding e by (simp add: example_state_def)
  show ?thesis
    using h1 h2 h3 h4 h5 h6 h7 a b c' e' init_example by simp
qed

subsection \<open>The id of a new conversation\<close>

text \<open>
  C7, as the code has it. \<^verbatim>\<open>startNewChat\<close> makes the id \<^verbatim>\<open>chat-\<close> followed by the decimal
  clock reading, creates the conversation under it, makes it the current one and writes
  both the mapping and the current id to the store. Ids made at different clock readings
  differ, so the id is new whenever no conversation was created at the same reading: the
  clock is all that keeps ids apart.
\<close>

theorem startNewChat_id:
  "currentChatId (snd (startNewChat P now st)) = ''chat-'' @ decimal now
   \<and> chats (snd (startNewChat P now st)) (''chat-'' @ decimal now)
       = Some (seeded_chat P (''chat-'' @ decimal now) now)
   \<and> localStorage (snd (startNewChat P now st)) ''currentChatId'' = Some (''chat-'' @ decimal now)
   \<and> localStorage (snd (startNewChat P now st)) ''pdb-ai-chats''
       = Some (JSON_stringify P (chats (snd (startNewChat P now st))))
   \<and> (\<forall>t. t \<noteq> now \<longrightarrow> ''chat-'' @ decimal t \<noteq> currentChatId (snd (startNewChat P now st)))
   \<and> (''chat-'' @ decimal now \<notin> dom (chats st) \<longrightarrow>
        currentChatId (snd (startNewChat P now st)) \<notin> dom (chats st))"
  using decimal_inj by (auto simp add: startNewChat_frame)

text \<open>
  Two presses of the new-chat button at one clock reading give the same id twice: the
  second id is that of a conversation which exists.
\<close>

theorem startNewChat_id_counterexample:
  "currentChatId (snd (startNewChat example_platform 2000
       (snd (startNewChat example_platform 2000 example_state))))
     \<in> dom (chats (snd (startNewChat example_platform 2000 example_state)))"
  by (simp add: startNewChat_frame)

theorem startNewChat_id_witness:
  "(2001::nat) \<noteq> 2000
   \<and> ''chat-'' @ decimal 2000 \<notin> dom (chats example_state)
   \<and> currentChatId (snd (startNewChat example_platform 2000 example_state)) = ''chat-2000''
   \<and> ''chat-'' @ decimal 2001 \<noteq> currentChatId (snd (startNewChat example_platform 2000 example_state))
   \<and> currentChatId (snd (startNewChat example_platform 2000 example_state))
        \<notin> dom (chats example_state)"
proof -
  have d: "decimal 2000 = ''2000''" by (simp add: decimal.simps digit_char_def)
  have h1: "(2001::nat) \<noteq> 2000" by simp
  have h2: "''chat-'' @ decimal 2000 \<notin> dom (chats example_state)"
    by (simp add: d example_state_def)
  show ?thesis
    using h1 h2 startNewChat_id [of example_platform 2000 example_state] d by auto
qed

subsection \<open>JSON texts are read back\<close>
















lemma closes_simps [simp]:
  "closes []" "closes (CHR '','' # r)" "closes (CHR '']'' # r)" "closes (CHR ''}'' # r)"
  by (simp_all add: closes_def)













































subsection \<open>Loading and saving\<close>

text \<open>
  C8, as the code has it. \<^verbatim>\<open>loadAllChats\<close> returns the empty mapping when nothing is stored
  or the stored text is empty, and otherwise whatever \<^verbatim>\<open>JSON.parse\<close> makes of the stored
  text: the mapping it denotes, or the exception that \<^verbatim>\<open>JSON.parse\<close> throws. Nothing catches
  that exception: it leaves the start-up handler, and the page is not set up.
\<close>

theorem loadAllChats_cases:
  "(ls ''pdb-ai-chats'' = None \<or> ls ''pdb-ai-chats'' = Some [] \<longrightarrow> loadAllChats P ls = Inr Map.empty)
   \<and> (\<forall>data. ls ''pdb-ai-chats'' = Some data \<and> data \<noteq> [] \<longrightarrow>
          loadAllChats P ls = JSON_parse P data)
   \<and> (\<forall>data e. ls ''pdb-ai-chats'' = Some data \<and> data \<noteq> [] \<and> JSON_parse P data = Inl e \<longrightarrow>
          init P ls now = Inl e)"
  by (auto simp add: loadAllChats_def init_def getCurrentChatId_def split: option.splits)

text \<open>With the text \<^verbatim>\<open>{\<close> in the store, \<^verbatim>\<open>loadAllChats\<close> throws and so does the start-up.\<close>

theorem loadAllChats_counterexample:
  "loadAllChats example_platform [''pdb-ai-chats'' \<mapsto> ''{''] = Inl SyntaxError
   \<and> init example_platform [''pdb-ai-chats'' \<mapsto> ''{''] 1000 = Inl SyntaxError"
  by (simp add: loadAllChats_def init_def getCurrentChatId_def example_platform_def example_text_def)

theorem loadAllChats_cases_witness:
  "loadAllChats example_platform Map.empty = Inr Map.empty
   \<and> loadAllChats example_platform [''pdb-ai-chats'' \<mapsto> example_text]
       = Inr [''chat-1000'' \<mapsto> example_chat]
   \<and> JSON_parse example_platform ''{'' = Inl SyntaxError
   \<and> init example_platform [''pdb-ai-chats'' \<mapsto> ''{''] 1000 = Inl SyntaxError"
proof -
  have p: "JSON_parse example_platform ''{'' = Inl SyntaxError"
    by (simp add: example_platform_def example_text_def)
  have q: "JSON_parse example_platform example_text = Inr [''chat-1000'' \<mapsto> example_chat]"
    by (simp add: example_platform_def)
  have n: "example_text \<noteq> []" by (simp add: example_text_def)
  show ?thesis
    using loadAllChats_cases [of Map.empty example_platform 1000]
      loadAllChats_cases [of "[''pdb-ai-chats'' \<mapsto> example_text]" example_platform 1000]
      loadAllChats_cases [of "[''pdb-ai-chats'' \<mapsto> ''{'']" example_platform 1000]
      p q n
    by simp
qed




subsection \<open>A successful response without the reply\<close>

text \<open>
  C10, as the code has it. The response has a status in 200..299, its body is JSON, and the
  current conversation exists. When \<^verbatim>\<open>data.candidates[0].content.parts[0]\<close> cannot be read,
  or is \<^verbatim>\<open>undefined\<close> or \<^verbatim>\<open>null\<close>, reading \<^verbatim>\<open>.text\<close> throws a TypeError and the script does
  exactly what it does when \<^verbatim>\<open>fetch\<close> is rejected with a TypeError: one apology is
  appended and the error is logged. When \<^verbatim>\<open>parts[0]\<close> is any other value that has no
  property \<^verbatim>\<open>text\<close>, nothing is thrown: the reply text is \<^verbatim>\<open>undefined\<close>, and a message of
  \<^verbatim>\<open>ai\<close> with that text is appended, with no apology and nothing logged.
\<close>

theorem reply_path_broken_is_error:
  assumes "chats st (currentChatId st) = Some c" and "res_ok status"
  shows "(reply_part data = Inl TypeError \<or> reply_part data = Inr None \<or> reply_part data = Inr (Some JNull) \<longrightarrow>
           sendMessage_resume P call (Response status (Inr data)) now st =
           sendMessage_resume P call (Rejected TypeError) now st \<and>
           (\<exists>st'. sendMessage_resume P call (Response status (Inr data)) now st = (Normal, st') \<and>
              chats st' = (chats st)(currentChatId st \<mapsto>
                c\<lparr>messages := messages c @
                  [\<lparr>sender = ''ai'',
                    msg_text = Some (JStr ''Sorry, I encountered an error. Please try again.''),
                    msg_file = None, timestamp = toISOString P now\<rparr>],
                  updatedAt := toISOString P now\<rparr>) \<and>
              console st' = console st @ [TypeError]))
       \<and> (\<forall>part. reply_part data = Inr (Some part) \<and> part \<noteq> JNull \<and>
             js_get (Some part) (Name ''text'') = Inr None \<longrightarrow>
           (\<exists>st'. sendMessage_resume P call (Response status (Inr data)) now st = (Normal, st') \<and>
              chats st' = (chats st)(currentChatId st \<mapsto>
                c\<lparr>messages := messages c @
                  [\<lparr>sender = ''ai'', msg_text = None, msg_file = None,
                    timestamp = toISOString P now\<rparr>],
                  updatedAt := toISOString P now\<rparr>) \<and>
              console st' = console st))"
proof (intro conjI impI allI)
  assume b: "reply_part data = Inl TypeError \<or> reply_part data = Inr None \<or> reply_part data = Inr (Some JNull)"
  then have "reply_text data = Inl TypeError"
    by (auto simp add: reply_text_part)
  then have g: "getAIResponse (Response status (Inr data)) = Inl TypeError"
    using assms(2) by (simp add: getAIResponse_def)
  have g': "getAIResponse (Rejected TypeError) = Inl TypeError"
    by (simp add: getAIResponse_def)
  show "sendMessage_resume P call (Response status (Inr data)) now st =
           sendMessage_resume P call (Rejected TypeError) now st"
    by (simp add: sendMessage_resume_def g g')
  show "\<exists>st'. sendMessage_resume P call (Response status (Inr data)) now st = (Normal, st') \<and>
              chats st' = (chats st)(currentChatId st \<mapsto>
                c\<lparr>messages := messages c @
                  [\<lparr>sender = ''ai'',
                    msg_text = Some (JStr ''Sorry, I encountered an error. Please try again.''),
                    msg_file = None, timestamp = toISOString P now\<rparr>],
                  updatedAt := toISOString P now\<rparr>) \<and>
              console st' = console st @ [TypeError]"
    by (simp add: sendMessage_resume_def g catch_block_appends [OF assms(1)] apology_def)
next
  fix part
  assume p: "reply_part data = Inr (Some part) \<and> part \<noteq> JNull \<and>
             js_get (Some part) (Name ''text'') = Inr None"
  then have "reply_text data = Inr None"
    by (simp add: reply_text_part)
  then have g: "getAIResponse (Response status (Inr data)) = Inr None"
    using assms(2) by (simp add: getAIResponse_def)
  have c: "chats (removeTypingIndicator (typingId call) st)
             (currentChatId (removeTypingIndicator (typingId call) st)) = Some c"
    using assms(1) by (simp add: removeTypingIndicator_def)
  show "\<exists>st'. sendMessage_resume P call (Response status (Inr data)) now st = (Normal, st') \<and>
              chats st' = (chats st)(currentChatId st \<mapsto>
                c\<lparr>messages := messages c @
                  [\<lparr>sender = ''ai'', msg_text = None, msg_file = None,
                    timestamp = toISOString P now\<rparr>],
                  updatedAt := toISOString P now\<rparr>) \<and>
              console st' = console st"
    unfolding sendMessage_resume_def g sum.case
    by (subst addMessage_renders [OF c]) (simp_all add: removeTypingIndicator_def)
qed

text \<open>
  The body \<^verbatim>\<open>{"candidates":[{"content":{"parts":[{}]}}]}\<close> has no \<^verbatim>\<open>text\<close> at the path. It is
  appended as a reply, its text \<^verbatim>\<open>undefined\<close>; there is no error message and no log.
\<close>

theorem reply_without_text_counterexample:
  "reply_text example_reply_without_text = Inr None
   \<and> map msg_text (messages (the (chats (snd (sendMessage_resume example_platform example_call
            (Response 200 (Inr example_reply_without_text)) 1002 example_state)) ''chat-1000'')))
       = [Some (JStr greeting), None]
   \<and> console (snd (sendMessage_resume example_platform example_call
            (Response 200 (Inr example_reply_without_text)) 1002 example_state)) = []"
  by (simp add: run_defs example_defs example_reply_without_text_def example_call_def)

theorem reply_path_broken_is_error_witness:
  "chats example_state (currentChatId example_state) = Some example_chat
   \<and> res_ok 200
   \<and> reply_part (JObj []) = Inl TypeError
   \<and> sendMessage_resume example_platform example_call (Response 200 (Inr (JObj []))) 1002
        example_state
      = sendMessage_resume example_platform example_call (Rejected TypeError) 1002 example_state
   \<and> reply_part example_reply_without_text = Inr (Some (JObj []))
   \<and> JObj [] \<noteq> JNull
   \<and> js_get (Some (JObj [])) (Name ''text'') = Inr None
   \<and> map msg_text (messages (the (chats (snd (sendMessage_resume example_platform example_call
            (Response 200 (Inr example_reply_without_text)) 1002 example_state)) ''chat-1000'')))
       = [Some (JStr greeting), None]"
proof -
  have h1: "chats example_state (currentChatId example_state) = Some example_chat"
    by (simp add: example_state_def)
  have h2: "res_ok 200" by (simp add: res_ok_def)
  have h3: "reply_part (JObj []) = Inl TypeError" by (simp add: reply_part_def)
  have h4: "reply_part example_reply_without_text = Inr (Some (JObj []))"
    by (simp add: reply_part_def example_reply_without_text_def)
  have h5: "js_get (Some (JObj [])) (Name ''text'') = Inr None" by simp
  from reply_path_broken_is_error [OF h1 h2, of "JObj []" example_platform example_call 1002] h3
  have a: "sendMessage_resume example_platform example_call (Response 200 (Inr (JObj []))) 1002
        example_state
      = sendMessage_resume example_platform example_call (Rejected TypeError) 1002 example_state"
    by blast
  from reply_path_broken_is_error [OF h1 h2, of example_reply_without_text example_platform
      example_call 1002] h4 h5
  obtain st' where r: "sendMessage_resume example_platform example_call
        (Response 200 (Inr example_reply_without_text)) 1002 example_state = (Normal, st')"
    and c: "chats st' = (chats example_state)(currentChatId example_state \<mapsto>
                example_chat\<lparr>messages := messages example_chat @
                  [\<lparr>sender = ''ai'', msg_text = None, msg_file = None,
                    timestamp = toISOString example_platform 1002\<rparr>],
                  updatedAt := toISOString example_platform 1002\<rparr>)"
    by blast
  have b: "map msg_text (messages (the (chats (snd (sendMessage_resume example_platform example_call
            (Response 200 (Inr example_reply_without_text)) 1002 example_state)) ''chat-1000'')))
       = [Some (JStr greeting), None]"
    unfolding r snd_conv c by (simp add: example_state_def example_chat_def)
  show ?thesis
    using h1 h2 h3 h4 h5 a b by simp
qed

end
